theory Spec2Isabelle
  imports Complex_Main "HOL-Library.Sublist"
begin

section \<open>JavaScript values\<close>

text \<open>
  A JavaScript number is a finite double, NaN or one of the two infinities. A finite
  double is given by its value, a real. Comparisons, \<^verbatim>\<open>Math.max\<close>, \<^verbatim>\<open>Math.min\<close> and
  \<^verbatim>\<open>Math.abs\<close> are exact on doubles. Quotients, products and differences are rounded
  by the code; the live path, where a difference is compared with 0.05, rounds them with
  \<open>round_double\<close> below.
\<close>

datatype number = Finite real | NaN | PosInfinity | NegInfinity

text \<open>
  The values the code handles: what \<^verbatim>\<open>JSON.parse\<close> produces, plus \<^verbatim>\<open>undefined\<close>.
  An object is the list of its own properties. Strings are lists of code units, restricted
  to the 8-bit range.
\<close>

datatype jsval =
    JUndefined
  | JNull
  | JBool bool
  | JNum number
  | JStr string
  | JArr "jsval list"
  | JObj "(string \<times> jsval) list"

text \<open>\<^verbatim>\<open>Number.isFinite(n)\<close>.\<close>

fun isFinite :: "number \<Rightarrow> bool" where
  "isFinite (Finite _) = True"
| "isFinite NaN = False"
| "isFinite PosInfinity = False"
| "isFinite NegInfinity = False"

text \<open>
  Truthiness, as tested by \<^verbatim>\<open>if (v)\<close>, \<^verbatim>\<open>v || d\<close> and \<^verbatim>\<open>Boolean(v)\<close>: the falsy values
  are \<^verbatim>\<open>undefined\<close>, \<^verbatim>\<open>null\<close>, \<^verbatim>\<open>false\<close>, zero, NaN and the empty string.
\<close>

fun truthy :: "jsval \<Rightarrow> bool" where
  "truthy JUndefined = False"
| "truthy JNull = False"
| "truthy (JBool b) = b"
| "truthy (JNum n) = (n \<noteq> NaN \<and> n \<noteq> Finite 0)"
| "truthy (JStr s) = (s \<noteq> [])"
| "truthy (JArr _) = True"
| "truthy (JObj _) = True"

text \<open>
  Property read \<^verbatim>\<open>v.k\<close> (and \<^verbatim>\<open>v?.k\<close>, which differs only on \<^verbatim>\<open>null\<close> and
  \<^verbatim>\<open>undefined\<close>, where the callers below never use the plain form). The property names
  read by the code (\<^verbatim>\<open>ok\<close>, \<^verbatim>\<open>error\<close>, \<^verbatim>\<open>message\<close>, \<^verbatim>\<open>detail\<close>, the probability
  fields) are not built-in properties of strings, numbers, booleans or arrays, so only an
  object can answer with something else than \<^verbatim>\<open>undefined\<close>.
\<close>

fun get_prop :: "jsval \<Rightarrow> string \<Rightarrow> jsval" where
  "get_prop (JObj ps) k = (case map_of ps k of Some v \<Rightarrow> v | None \<Rightarrow> JUndefined)"
| "get_prop _ k = JUndefined"

section \<open>Doubles\<close>

text \<open>
  Rounding a real to the nearest double (IEEE 754 binary64, ties to even). A non-zero
  \<open>x\<close> lies in the binade \<open>2\<^sup>k \<le> \<bar>x\<bar> < 2\<^sup>k\<^sup>+\<^sup>1\<close>, \<open>k\<close> not below \<open>-1022\<close> (below it the
  doubles are subnormal and keep the spacing of that binade); there the doubles are the
  multiples of \<open>2\<^sup>k\<^sup>-\<^sup>5\<^sup>2\<close>, and \<open>x\<close> goes to the nearest one, to the one with an even
  multiplier when it is half way.
\<close>

definition pow2 :: "int \<Rightarrow> real" where
  "pow2 k = (if 0 \<le> k then 2 ^ nat k else 1 / 2 ^ nat (- k))"

definition round_half_even :: "real \<Rightarrow> int" where
  "round_half_even q =
     (let f = \<lfloor>q\<rfloor>
      in if q - of_int f < 1 / 2 then f
         else if q - of_int f > 1 / 2 then f + 1
         else if even f then f else f + 1)"

text \<open>
  The binade of \<open>x\<close>, looked for upwards from \<open>-1022\<close>: the first \<open>k\<close> with
  \<open>\<bar>x\<bar> < 2\<^sup>k\<^sup>+\<^sup>1\<close>, and 1024 when \<open>\<bar>x\<bar>\<close> is beyond every double.
\<close>

fun binade_above :: "nat \<Rightarrow> int \<Rightarrow> real \<Rightarrow> int" where
  "binade_above 0 k a = k"
| "binade_above (Suc n) k a = (if a < pow2 (k + 1) then k else binade_above n (k + 1) a)"

definition binade :: "real \<Rightarrow> int" where
  "binade x = binade_above 2046 (- 1022) \<bar>x\<bar>"

definition round_double :: "real \<Rightarrow> real" where
  "round_double x =
     (if x = 0 then 0
      else of_int (round_half_even (x / pow2 (binade x - 52))) * pow2 (binade x - 52))"

text \<open>
  The double that an arithmetic operation of exact result \<open>x\<close> gives: the rounded value,
  or an infinity when that reaches \<open>2\<^sup>1\<^sup>0\<^sup>2\<^sup>4\<close>.
\<close>

definition to_double :: "real \<Rightarrow> number" where
  "to_double x =
     (let r = round_double x
      in if r \<ge> 2 ^ 1024 then PosInfinity
         else if r \<le> - (2 ^ 1024) then NegInfinity
         else Finite r)"

section \<open>Strings\<close>

text \<open>
  The white space and line terminators that \<^verbatim>\<open>String.prototype.trim\<close> strips, among the
  code units below 256: TAB, LF, VT, FF, CR, SPACE and NBSP.
\<close>

definition is_ws :: "char \<Rightarrow> bool" where
  "is_ws c \<longleftrightarrow>
     c = CHR 0x09 \<or> c = CHR 0x0A \<or> c = CHR 0x0B \<or> c = CHR 0x0C \<or> c = CHR 0x0D \<or>
     c = CHR 0x20 \<or> c = CHR 0xA0"

definition trim :: "string \<Rightarrow> string" where
  "trim s = rev (dropWhile is_ws (rev (dropWhile is_ws s)))"

text \<open>
  \<^verbatim>\<open>s.split(/\r?\n/g)\<close>: the text is cut at every LF, and a CR right before the LF goes
  with it. The empty text gives one empty line.
\<close>

fun split_lines :: "string \<Rightarrow> string list" where
  "split_lines [] = [[]]"
| "split_lines (c # cs) =
     (if c = CHR 0x0A then [] # split_lines cs
      else if c = CHR 0x0D \<and> take 1 cs = [CHR 0x0A] then [] # split_lines (drop 1 cs)
      else (case split_lines cs of
              [] \<Rightarrow> [[c]]
            | l # ls \<Rightarrow> (c # l) # ls))"

text \<open>\<^verbatim>\<open>a || b\<close> on two strings: the first one unless it is empty.\<close>

definition or_else :: "string \<Rightarrow> string \<Rightarrow> string" where
  "or_else a b = (if a \<noteq> [] then a else b)"

section \<open>The proxy server: running the win-probability script\<close>

definition WINPROB_MARKER :: string where
  "WINPROB_MARKER = ''__WINPROB_JSON__''"

definition MATCH_RESOLVE_MARKER :: string where
  "MATCH_RESOLVE_MARKER = ''__MATCHID_JSON__''"

text \<open>
  The loop of \<^verbatim>\<open>parseMarkedPayload\<close>, which walks the lines from the last index down
  to 0: here it walks the reversed list. Lines that do not start with the marker are
  skipped; the first one that does decides the result, the parsed remainder of the line
  or \<^verbatim>\<open>null\<close> when \<^verbatim>\<open>JSON.parse\<close> throws, and no other line is looked at.
  \<^verbatim>\<open>JSON.parse\<close> is a built-in of the runtime and a parameter here: \<open>None\<close> is the thrown
  SyntaxError.
\<close>

fun scan_lines :: "(string \<Rightarrow> jsval option) \<Rightarrow> string \<Rightarrow> string list \<Rightarrow> jsval" where
  "scan_lines parse marker [] = JNull"
| "scan_lines parse marker (line # earlier) =
     (if \<not> prefix marker line then scan_lines parse marker earlier
      else (case parse (trim (drop (length marker) line)) of
              Some v \<Rightarrow> v
            | None \<Rightarrow> JNull))"

text \<open>
  \<^verbatim>\<open>String(stdout || "").split(/\r?\n/g).map((line) => line.trim()).filter(Boolean)\<close>:
  the captured text is always a string, so the conversion is the identity.
\<close>

definition marked_lines :: "string \<Rightarrow> string list" where
  "marked_lines stdout = filter (\<lambda>line. line \<noteq> []) (map trim (split_lines stdout))"

definition parseMarkedPayload :: "(string \<Rightarrow> jsval option) \<Rightarrow> string \<Rightarrow> string \<Rightarrow> jsval" where
  "parseMarkedPayload parse stdout marker = scan_lines parse marker (rev (marked_lines stdout))"

text \<open>What \<^verbatim>\<open>spawnProcess\<close> resolves with when the child closes.\<close>

record spawn_result =
  code :: int
  stdout :: string
  stderr :: string
  timedOut :: bool

text \<open>
  The surroundings of \<^verbatim>\<open>runWinProbability\<close>: whether the script directory exists, the
  script name, what spawning the interpreter with given arguments ends in (\<open>Inl\<close> when
  the promise is rejected by the child's \<^verbatim>\<open>error\<close> event), and \<^verbatim>\<open>JSON.parse\<close>.
\<close>

record proxy_env =
  WINPROB_DIR_exists :: bool
  WINPROB_SCRIPT :: string
  spawnProcess :: "string list \<Rightarrow> string + spawn_result"
  JSON_parse :: "string \<Rightarrow> jsval option"

text \<open>
  The errors \<^verbatim>\<open>runWinProbability\<close> throws, one constructor for each \<^verbatim>\<open>throw\<close>, with what
  the error carries: the \<^verbatim>\<open>detail\<close>, and the exit code or the payload its message is built
  from. The names are those of the specification.
\<close>

datatype failure =
    DirectoryMissing
  | SpawnFailure string
  | TimeoutFailure string
  | PayloadNotOk jsval
  | InvocationFailure int string
  | PayloadMissing string

text \<open>The \<^verbatim>\<open>statusCode\<close> set on each error; the spawn error has none.\<close>

fun statusCode :: "failure \<Rightarrow> nat option" where
  "statusCode DirectoryMissing = Some 500"
| "statusCode (SpawnFailure _) = None"
| "statusCode (TimeoutFailure _) = Some 504"
| "statusCode (PayloadNotOk _) = Some 400"
| "statusCode (InvocationFailure _ _) = Some 502"
| "statusCode (PayloadMissing _) = Some 502"

definition winprob_args :: "proxy_env \<Rightarrow> string \<Rightarrow> string \<Rightarrow> string list" where
  "winprob_args env nickname matchId =
     [WINPROB_SCRIPT env, nickname, ''--json''] @
     (if matchId \<noteq> [] then [''--match-id'', matchId] else [])"

definition runWinProbability :: "proxy_env \<Rightarrow> string \<Rightarrow> string \<Rightarrow> failure + jsval" where
  "runWinProbability env nickname matchId =
     (if \<not> WINPROB_DIR_exists env then Inl DirectoryMissing
      else case spawnProcess env (winprob_args env nickname matchId) of
        Inl e \<Rightarrow> Inl (SpawnFailure e)
      | Inr r \<Rightarrow>
          if timedOut r then Inl (TimeoutFailure (or_else (stderr r) (stdout r)))
          else let payload = parseMarkedPayload (JSON_parse env) (stdout r) WINPROB_MARKER in
            if truthy payload then
              (if get_prop payload ''ok'' = JBool False then Inl (PayloadNotOk payload)
               else Inr payload)
            else if code r \<noteq> 0 then
              Inl (InvocationFailure (code r) (or_else (stderr r) (stdout r)))
            else Inl (PayloadMissing (stdout r)))"

section \<open>The widget: conversions and text matching\<close>

text \<open>
  Three built-ins of the runtime are parameters: \<^verbatim>\<open>Number(s)\<close> on a string,
  \<^verbatim>\<open>String(n)\<close> on a number, and whether \<^verbatim>\<open>new URL(path, base)\<close> accepts a base
  (\<open>Some\<close> is the message of the TypeError it throws otherwise). Every statement
  below holds whatever they are.
\<close>

record js_runtime =
  Number_of_string :: "string \<Rightarrow> number"
  String_of_number :: "number \<Rightarrow> string"
  URL_TypeError :: "string \<Rightarrow> string option"

text \<open>\<^verbatim>\<open>Array.prototype.join\<close> with its default separator.\<close>

fun join_comma :: "string list \<Rightarrow> string" where
  "join_comma [] = []"
| "join_comma [x] = x"
| "join_comma (x # y # ys) = x @ '','' @ join_comma (y # ys)"

text \<open>
  \<^verbatim>\<open>String(v)\<close>. An array joins the conversions of its elements, \<^verbatim>\<open>null\<close> and
  \<^verbatim>\<open>undefined\<close> elements giving the empty text; an object is taken not to redefine
  \<^verbatim>\<open>toString\<close>.
\<close>

fun js_String :: "js_runtime \<Rightarrow> jsval \<Rightarrow> string" where
  "js_String rt JUndefined = ''undefined''"
| "js_String rt JNull = ''null''"
| "js_String rt (JBool b) = (if b then ''true'' else ''false'')"
| "js_String rt (JNum n) = String_of_number rt n"
| "js_String rt (JStr s) = s"
| "js_String rt (JArr xs) =
     join_comma (map (\<lambda>x. if x = JNull \<or> x = JUndefined then [] else js_String rt x) xs)"
| "js_String rt (JObj _) = ''[object Object]''"

text \<open>\<^verbatim>\<open>String(v || "")\<close>.\<close>

definition String_or_empty :: "js_runtime \<Rightarrow> jsval \<Rightarrow> string" where
  "String_or_empty rt v = (if truthy v then js_String rt v else [])"

text \<open>
  \<^verbatim>\<open>toLowerCase\<close> on code units below 256: the letters A to Z, and the capital letters
  of the Latin-1 block (0xC0 to 0xDE, the multiplication sign 0xD7 apart).
\<close>

definition lower_char :: "char \<Rightarrow> char" where
  "lower_char c =
     (let n = (of_char c :: nat)
      in if (65 \<le> n \<and> n \<le> 90) \<or> (192 \<le> n \<and> n \<le> 222 \<and> n \<noteq> 215)
         then char_of (n + 32) else c)"

definition toLowerCase :: "string \<Rightarrow> string" where
  "toLowerCase s = map lower_char s"

text \<open>\<^verbatim>\<open>text.includes(part)\<close>: \<open>part\<close> occurs in \<open>text\<close> at some position.\<close>

fun js_includes :: "string \<Rightarrow> string \<Rightarrow> bool" where
  "js_includes [] part = (part = [])"
| "js_includes (c # cs) part = (prefix part (c # cs) \<or> js_includes cs part)"

definition matchesNoActiveMatchText :: "js_runtime \<Rightarrow> jsval \<Rightarrow> bool" where
  "matchesNoActiveMatchText rt v =
     (let text = toLowerCase (String_or_empty rt v)
      in if text = [] then False
         else js_includes text ''aucune partie en cours'' \<or>
              js_includes text ''no ongoing match'' \<or>
              js_includes text ''no match in progress'')"

text \<open>\<^verbatim>\<open>Boolean(value) && typeof value === "object" && !Array.isArray(value)\<close>.\<close>

fun isPlainObject :: "jsval \<Rightarrow> bool" where
  "isPlainObject (JObj _) = True"
| "isPlainObject _ = False"

definition isNoActiveMatchPayload :: "js_runtime \<Rightarrow> jsval \<Rightarrow> bool" where
  "isNoActiveMatchPayload rt payload =
     (if \<not> isPlainObject payload then False
      else if matchesNoActiveMatchText rt (get_prop payload ''error'') \<or>
              matchesNoActiveMatchText rt (get_prop payload ''message'') then True
      else let detail = get_prop payload ''detail''
           in if isPlainObject detail then
                matchesNoActiveMatchText rt (get_prop detail ''error'') \<or>
                matchesNoActiveMatchText rt (get_prop detail ''message'')
              else (case detail of
                      JStr _ \<Rightarrow> matchesNoActiveMatchText rt detail
                    | _ \<Rightarrow> False))"

text \<open>
  What a \<^verbatim>\<open>catch\<close> receives: an \<^verbatim>\<open>Error\<close> instance with its message, or any other
  thrown value.
\<close>

datatype thrown = Error string | Thrown jsval

text \<open>
  The message that \<^verbatim>\<open>isNoActiveMatchError\<close> takes from what was thrown: a thrown string
  itself, the message of an \<^verbatim>\<open>Error\<close>, and \<^verbatim>\<open>String(error || "")\<close> otherwise.
\<close>

fun thrown_message :: "js_runtime \<Rightarrow> thrown \<Rightarrow> string" where
  "thrown_message rt (Thrown (JStr s)) = s"
| "thrown_message rt (Error message) = message"
| "thrown_message rt (Thrown v) = String_or_empty rt v"

definition isNoActiveMatchError :: "js_runtime \<Rightarrow> thrown \<Rightarrow> bool" where
  "isNoActiveMatchError rt error = matchesNoActiveMatchText rt (JStr (thrown_message rt error))"

text \<open>\<^verbatim>\<open>a || b\<close> on two values.\<close>

definition or_val :: "jsval \<Rightarrow> jsval \<Rightarrow> jsval" where
  "or_val a b = (if truthy a then a else b)"

text \<open>
  \<^verbatim>\<open>asFiniteNumber\<close>: a finite number is kept, a string is converted after its commas
  are replaced by dots, everything else is NaN.
\<close>

definition asFiniteNumber :: "js_runtime \<Rightarrow> jsval \<Rightarrow> number" where
  "asFiniteNumber rt v =
     (case v of
        JNum n \<Rightarrow> (if isFinite n then n else NaN)
      | JStr s \<Rightarrow>
          (let parsed = Number_of_string rt (map (\<lambda>c. if c = CHR '','' then CHR ''.'' else c) s)
           in if isFinite parsed then parsed else NaN)
      | _ \<Rightarrow> NaN)"

fun firstFiniteNumber :: "js_runtime \<Rightarrow> jsval list \<Rightarrow> number" where
  "firstFiniteNumber rt [] = NaN"
| "firstFiniteNumber rt (v # vs) =
     (let parsed = asFiniteNumber rt v
      in if isFinite parsed then parsed else firstFiniteNumber rt vs)"

section \<open>The widget: state\<close>

text \<open>
  What a value badge shows: \<^verbatim>\<open>--%\<close>, or a percentage \<open>pct\<close> printed as
  \<^verbatim>\<open>pct.toFixed(1)\<close> with a decimal comma and a percent sign. The number is kept, not
  its digits.
\<close>

datatype badge_text = NoValue | Percent real

text \<open>The sign in front of the delta: a bullet, or a triangle pointing up or down.\<close>

datatype delta_symbol = Bullet | TriangleUp | TriangleDown

text \<open>
  The element of the live value: its text, the class \<^verbatim>\<open>has-delta\<close>, and the attributes
  \<^verbatim>\<open>data-delta\<close> (the sign and the absolute value, printed with one decimal) and
  \<^verbatim>\<open>data-delta-dir\<close>.
\<close>

record live_value_element =
  live_text :: badge_text
  has_delta :: bool
  data_delta :: "(delta_symbol \<times> real) option"
  data_delta_dir :: "string option"

text \<open>
  The state the functions below read and write. An element of \<^verbatim>\<open>DOM\<close> is \<open>None\<close> when
  \<^verbatim>\<open>getElementById\<close> found nothing. A badge is its \<^verbatim>\<open>--winprob-accent\<close> property, a meta
  line and the error line their text (the error line is hidden when the text is empty);
  \<open>winprobBusy\<close> stands for the loader and the section together, which
  \<^verbatim>\<open>setSectionLoading\<close> only touches when both exist. Then the fields of \<^verbatim>\<open>RUNTIME\<close> and
  the flag \<^verbatim>\<open>isLiveWinprobRefreshing\<close>.
\<close>

record widget =
  winprobBadge :: "string option"
  winprobValue :: "badge_text option"
  winprobMeta :: "string option"
  liveWinprobBadge :: "string option"
  liveWinprobValue :: "live_value_element option"
  liveWinprobMeta :: "string option"
  winprobBusy :: "bool option"
  winprobError :: "string option"
  resolvedMatchId :: string
  lastLiveWinprobPct :: number
  isLiveWinprobRefreshing :: bool

text \<open>The fields of \<^verbatim>\<open>CONFIG\<close> that the win-probability code reads.\<close>

record widget_config =
  FACEIT_NICKNAME :: string
  PROXY_BASE_URL :: string
  WINPROB_ENABLED :: bool
  LIVE_WINPROB_ENABLED :: bool
  WINPROB_MATCH_ID :: string
  WINPROB_FETCH_TIMEOUT_MS :: number
  LIVE_WINPROB_FETCH_TIMEOUT_MS :: number

section \<open>The widget: fetching the probability\<close>

text \<open>The call \<^verbatim>\<open>fetchJson(url, headers, timeout)\<close>: the URL in its parts and the timeout.\<close>

record request =
  endpoint :: string
  base_url :: string
  query :: "(string \<times> string) list"
  timeout_ms :: number

definition ensureTrailingSlash :: "string \<Rightarrow> string" where
  "ensureTrailingSlash url =
     (let v = trim url in if suffix ''/'' v then v else v @ ''/'')"

definition getEffectiveMatchId :: "widget_config \<Rightarrow> widget \<Rightarrow> string" where
  "getEffectiveMatchId cfg w = trim (or_else (WINPROB_MATCH_ID cfg) (or_else (resolvedMatchId w) []))"

text \<open>
  \<^verbatim>\<open>{...payload, k1: v1, ...}\<close>: the properties of the object, each new one replacing the
  property of that name or coming after the others. It is only reached with a plain
  object.
\<close>

fun obj_update :: "string \<Rightarrow> jsval \<Rightarrow> (string \<times> jsval) list \<Rightarrow> (string \<times> jsval) list" where
  "obj_update k v [] = [(k, v)]"
| "obj_update k v (p # ps) = (if fst p = k then (k, v) # ps else p # obj_update k v ps)"

fun spread_with :: "jsval \<Rightarrow> (string \<times> jsval) list \<Rightarrow> jsval" where
  "spread_with (JObj ps) new = JObj (fold (\<lambda>kv. obj_update (fst kv) (snd kv)) new ps)"
| "spread_with _ new = JObj (fold (\<lambda>kv. obj_update (fst kv) (snd kv)) new [])"

text \<open>
  \<^verbatim>\<open>fetchWinProbability\<close> up to its \<^verbatim>\<open>await\<close>: the two checks that throw, and the request
  handed to \<^verbatim>\<open>fetchJson\<close>.
\<close>

definition fetchWinProbability_request :: "js_runtime \<Rightarrow> widget_config \<Rightarrow> widget \<Rightarrow> thrown + request" where
  "fetchWinProbability_request rt cfg w =
     (let nickname = trim (FACEIT_NICKNAME cfg)
      in if nickname = [] then
           Inl (Error ''FACEIT_NICKNAME manquant pour la win probability.'')
         else let proxyBase = trim (PROXY_BASE_URL cfg)
           in if proxyBase = [] then
                Inl (Error (''PROXY_BASE_URL requis pour r'' @ [CHR 0xE9] @ ''cup'' @ [CHR 0xE9] @
                            ''rer la win probability locale.''))
              else case URL_TypeError rt (ensureTrailingSlash proxyBase) of
                Some m \<Rightarrow> Inl (Error m)
              | None \<Rightarrow>
                  let matchId = getEffectiveMatchId cfg w
                  in Inr \<lparr>endpoint = ''win-probability'',
                          base_url = ensureTrailingSlash proxyBase,
                          query = (''nickname'', nickname) #
                                  (if matchId \<noteq> [] then [(''match_id'', matchId)] else []),
                          timeout_ms = asFiniteNumber rt (JNum (WINPROB_FETCH_TIMEOUT_MS cfg))\<rparr>)"

text \<open>
  \<^verbatim>\<open>fetchWinProbability\<close> from the moment \<^verbatim>\<open>fetchJson\<close> settles, with what it threw
  (\<open>Inl\<close>) or returned (\<open>Inr\<close>): the \<^verbatim>\<open>catch\<close>, the checks of the payload, and the
  match identifier kept in \<^verbatim>\<open>RUNTIME\<close>. The result is what the function throws or
  returns, with the new state.
\<close>

definition fetchWinProbability_settle ::
  "js_runtime \<Rightarrow> widget_config \<Rightarrow> thrown + jsval \<Rightarrow> widget \<Rightarrow> (thrown + jsval) \<times> widget" where
  "fetchWinProbability_settle rt cfg outcome w =
     (case outcome of
        Inl error \<Rightarrow>
          (if isNoActiveMatchError rt error then
             Inr (JObj [(''ok'', JBool True), (''no_active_match'', JBool True),
                        (''win_probability'', JNull)])
           else Inl error, w)
      | Inr payload \<Rightarrow>
          if \<not> isPlainObject payload then
            (Inl (Error (''R'' @ [CHR 0xE9] @ ''ponse win probability invalide.'')), w)
          else if get_prop payload ''ok'' = JBool False then
            (if isNoActiveMatchPayload rt payload then
               Inr (spread_with payload
                      [(''no_active_match'', JBool True), (''win_probability'', JNull)])
             else Inl (Error (js_String rt
                      (or_val (get_prop payload ''error'')
                              (JStr ''Calcul win probability impossible.'')))), w)
          else
            let returnedMatchId =
                  trim (String_or_empty rt
                          (or_val (get_prop payload ''match_id'') (get_prop payload ''matchId'')))
            in (Inr payload,
                if trim (WINPROB_MATCH_ID cfg) = [] \<and> returnedMatchId \<noteq> []
                then w\<lparr>resolvedMatchId := returnedMatchId\<rparr> else w))"

text \<open>The whole call, \<open>fetchJson\<close> being what the network answers to a request.\<close>

definition fetchWinProbability ::
  "js_runtime \<Rightarrow> widget_config \<Rightarrow> (request \<Rightarrow> thrown + jsval) \<Rightarrow> widget \<Rightarrow> (thrown + jsval) \<times> widget" where
  "fetchWinProbability rt cfg fetchJson w =
     (case fetchWinProbability_request rt cfg w of
        Inl e \<Rightarrow> (Inl e, w)
      | Inr req \<Rightarrow> fetchWinProbability_settle rt cfg (fetchJson req) w)"

section \<open>The widget: rendering the probability\<close>

definition getWinprobColor :: "js_runtime \<Rightarrow> jsval \<Rightarrow> string" where
  "getWinprobColor rt pctValue =
     (case asFiniteNumber rt pctValue of
        Finite pct \<Rightarrow>
          if pct \<ge> 60 then ''#4CAF50''
          else if pct \<ge> 45 then ''#F4C430''
          else ''#F44336''
      | _ \<Rightarrow> ''#888888'')"



definition live_winprob_fields :: "jsval \<Rightarrow> jsval list" where
  "live_winprob_fields payload =
     [get_prop payload ''dynamic_win_probability'',
      get_prop payload ''dynamicWinProbability'',
      get_prop payload ''dynamic_win_probability_pct'',
      get_prop payload ''dynamicWinProbabilityPct'']"


definition clearLiveWinprobDelta :: "widget \<Rightarrow> widget" where
  "clearLiveWinprobDelta w =
     (case liveWinprobValue w of
        None \<Rightarrow> w
      | Some v \<Rightarrow>
          w\<lparr>liveWinprobValue :=
               Some (v\<lparr>has_delta := False, data_delta := None, data_delta_dir := None\<rparr>)\<rparr>)"

text \<open>
  \<^verbatim>\<open>applyLiveWinprobDelta\<close>. The literal \<^verbatim>\<open>0.05\<close> of the code is the double nearest to
  0.05, and \<^verbatim>\<open>-0.05\<close> its opposite.
\<close>

definition applyLiveWinprobDelta :: "number \<Rightarrow> bool \<Rightarrow> widget \<Rightarrow> widget" where
  "applyLiveWinprobDelta deltaPct hasPrevious w =
     (if liveWinprobValue w = None \<or> \<not> hasPrevious \<or> \<not> isFinite deltaPct then
        clearLiveWinprobDelta w
      else case (liveWinprobValue w, deltaPct) of
        (Some v, Finite d) \<Rightarrow>
          (let absValue = \<bar>d\<bar>;
               (direction, indicator) =
                 (if d > round_double 0.05 then (''up'', (TriangleUp, absValue))
                  else if d < - round_double 0.05 then (''down'', (TriangleDown, absValue))
                  else (''flat'', (Bullet, absValue)))
           in w\<lparr>liveWinprobValue :=
                  Some (v\<lparr>data_delta := Some indicator, data_delta_dir := Some direction,
                          has_delta := True\<rparr>)\<rparr>)
      | _ \<Rightarrow> w)"

text \<open>\<^verbatim>\<open>DOM.liveWinprobValue.textContent = t\<close>, the element being there.\<close>

definition set_live_text :: "badge_text \<Rightarrow> widget \<Rightarrow> widget" where
  "set_live_text t w =
     (case liveWinprobValue w of
        None \<Rightarrow> w
      | Some v \<Rightarrow> w\<lparr>liveWinprobValue := Some (v\<lparr>live_text := t\<rparr>)\<rparr>)"

text \<open>
  The scaling statement on the live path, with its quotient as the double it is.
\<close>

definition scale_probability_double :: "number \<Rightarrow> number" where
  "scale_probability_double probability =
     (case probability of
        Finite p \<Rightarrow> if p > 1 \<and> p \<le> 100 then to_double (p / 100) else probability
      | _ \<Rightarrow> probability)"

text \<open>
  \<^verbatim>\<open>renderLiveWinProbability\<close>. The percentage is the rounded product (at most 100, so
  it is finite), the delta the rounded difference with the retained sample.
\<close>

definition renderLiveWinProbability :: "js_runtime \<Rightarrow> jsval \<Rightarrow> widget \<Rightarrow> widget" where
  "renderLiveWinProbability rt payload w =
     (if liveWinprobBadge w = None \<or> liveWinprobValue w = None \<or> liveWinprobMeta w = None
      then w
      else if get_prop payload ''no_active_match'' = JBool True then
        (clearLiveWinprobDelta
           ((set_live_text NoValue (w\<lparr>liveWinprobBadge := Some ''#888888''\<rparr>))
              \<lparr>liveWinprobMeta := Some ''Aucune partie en cours''\<rparr>))
          \<lparr>lastLiveWinprobPct := NaN\<rparr>
      else case scale_probability_double (firstFiniteNumber rt (live_winprob_fields payload)) of
        Finite probability \<Rightarrow>
          (let clamped = max 0 (min 1 probability);
               pct = round_double (clamped * 100);
               accent = getWinprobColor rt (JNum (Finite pct));
               previousPct = asFiniteNumber rt (JNum (lastLiveWinprobPct w));
               hasPrevious = isFinite previousPct;
               deltaPct = (case previousPct of Finite prev \<Rightarrow> to_double (pct - prev) | _ \<Rightarrow> NaN)
           in (applyLiveWinprobDelta deltaPct hasPrevious
                 (set_live_text (Percent pct) (w\<lparr>liveWinprobBadge := Some accent\<rparr>)))
                \<lparr>liveWinprobMeta := Some [], lastLiveWinprobPct := Finite pct\<rparr>)
      | _ \<Rightarrow>
          (clearLiveWinprobDelta
             ((set_live_text NoValue (w\<lparr>liveWinprobBadge := Some ''#888888''\<rparr>))
                \<lparr>liveWinprobMeta := Some ''Live indisponible''\<rparr>))
            \<lparr>lastLiveWinprobPct := NaN\<rparr>)"

section \<open>The widget: the live refresh\<close>

text \<open>
  \<^verbatim>\<open>fetchLiveWinProbability\<close>, cut at its \<^verbatim>\<open>await\<close> like \<^verbatim>\<open>fetchWinProbability\<close>.
\<close>

definition fetchLiveWinProbability_request :: "js_runtime \<Rightarrow> widget_config \<Rightarrow> widget \<Rightarrow> thrown + request" where
  "fetchLiveWinProbability_request rt cfg w =
     (let nickname = trim (FACEIT_NICKNAME cfg)
      in if nickname = [] then
           Inl (Error ''FACEIT_NICKNAME manquant pour la live win probability.'')
         else let proxyBase = trim (PROXY_BASE_URL cfg)
           in if proxyBase = [] then
                Inl (Error (''PROXY_BASE_URL requis pour r'' @ [CHR 0xE9] @ ''cup'' @ [CHR 0xE9] @
                            ''rer la live win probability locale.''))
              else case URL_TypeError rt (ensureTrailingSlash proxyBase) of
                Some m \<Rightarrow> Inl (Error m)
              | None \<Rightarrow>
                  let matchId = getEffectiveMatchId cfg w
                  in Inr \<lparr>endpoint = ''live-win-probability'',
                          base_url = ensureTrailingSlash proxyBase,
                          query = (''nickname'', nickname) #
                                  (if matchId \<noteq> [] then [(''match_id'', matchId)] else []),
                          timeout_ms = asFiniteNumber rt (JNum (LIVE_WINPROB_FETCH_TIMEOUT_MS cfg))\<rparr>)"

definition fetchLiveWinProbability_settle ::
  "js_runtime \<Rightarrow> widget_config \<Rightarrow> thrown + jsval \<Rightarrow> widget \<Rightarrow> (thrown + jsval) \<times> widget" where
  "fetchLiveWinProbability_settle rt cfg outcome w =
     (case outcome of
        Inl error \<Rightarrow>
          (if isNoActiveMatchError rt error then
             Inr (JObj [(''ok'', JBool True), (''no_active_match'', JBool True),
                        (''dynamic_win_probability'', JNull)])
           else Inl error, w)
      | Inr payload \<Rightarrow>
          if \<not> isPlainObject payload then
            (Inl (Error (''R'' @ [CHR 0xE9] @ ''ponse live win probability invalide.'')), w)
          else if get_prop payload ''ok'' = JBool False then
            (if isNoActiveMatchPayload rt payload then
               Inr (spread_with payload
                      [(''no_active_match'', JBool True), (''dynamic_win_probability'', JNull)])
             else Inl (Error (js_String rt
                      (or_val (get_prop payload ''error'')
                              (JStr ''Calcul live win probability impossible.'')))), w)
          else
            let returnedMatchId =
                  trim (String_or_empty rt
                          (or_val (get_prop payload ''match_id'') (get_prop payload ''matchId'')))
            in (Inr payload,
                if trim (WINPROB_MATCH_ID cfg) = [] \<and> returnedMatchId \<noteq> []
                then w\<lparr>resolvedMatchId := returnedMatchId\<rparr> else w))"

definition shouldShowWinprob :: "widget_config \<Rightarrow> bool" where
  "shouldShowWinprob cfg = WINPROB_ENABLED cfg"

definition shouldShowLiveWinprob :: "widget_config \<Rightarrow> bool" where
  "shouldShowLiveWinprob cfg = LIVE_WINPROB_ENABLED cfg"

text \<open>\<^verbatim>\<open>setSectionLoading("winprob", isLoading)\<close> and \<^verbatim>\<open>setSectionError("winprob", message)\<close>.\<close>

definition setSectionLoading :: "bool \<Rightarrow> widget \<Rightarrow> widget" where
  "setSectionLoading isLoading w =
     (case winprobBusy w of None \<Rightarrow> w | Some _ \<Rightarrow> w\<lparr>winprobBusy := Some isLoading\<rparr>)"

definition setSectionError :: "string \<Rightarrow> widget \<Rightarrow> widget" where
  "setSectionError message w =
     (case winprobError w of None \<Rightarrow> w | Some _ \<Rightarrow> w\<lparr>winprobError := Some message\<rparr>)"

text \<open>
  \<^verbatim>\<open>toFriendlyError\<close>. The message is a thrown string, the message of an \<^verbatim>\<open>Error\<close>
  unless it is empty, and \<^verbatim>\<open>Erreur API.\<close> otherwise; the case-insensitive test for a
  network failure is done on the lowercased message.
\<close>

fun error_message :: "thrown \<Rightarrow> string" where
  "error_message (Thrown (JStr s)) = s"
| "error_message (Error m) = (if m \<noteq> [] then m else ''Erreur API.'')"
| "error_message (Thrown _) = ''Erreur API.''"

definition is_network_failure :: "string \<Rightarrow> bool" where
  "is_network_failure message =
     (let text = toLowerCase message
      in js_includes text ''failed to fetch'' \<or> js_includes text ''load failed'' \<or>
         js_includes text ''networkerror'' \<or> js_includes text ''echec reseau'' \<or>
         js_includes text ([CHR 0xE9] @ ''chec r'' @ [CHR 0xE9] @ ''seau'') \<or>
         js_includes text ''cors'')"

definition toFriendlyError :: "js_runtime \<Rightarrow> thrown \<Rightarrow> string" where
  "toFriendlyError rt error =
     (if (case error of Thrown v \<Rightarrow> \<not> truthy v | Error _ \<Rightarrow> False) then ''Erreur inconnue.''
      else let message = error_message error
        in if matchesNoActiveMatchText rt (JStr message) then ''Aucune partie en cours''
           else if is_network_failure message then
             [CHR 0xC9] @ ''chec r'' @ [CHR 0xE9] @
             ''seau/CORS. Utilisez un proxy local (PROXY_BASE_URL).''
           else message)"

text \<open>
  A call of \<^verbatim>\<open>refreshLiveWinProbability\<close> runs in two parts, before and after its
  \<^verbatim>\<open>await\<close>. Between the two it is suspended, with its options and with what
  \<^verbatim>\<open>fetchLiveWinProbability\<close> waits for: nothing when it threw before sending (\<open>Inl\<close>), or
  the request it sent (\<open>Inr\<close>). The session is the widget and the suspended calls.
\<close>

record refresh_options =
  withLoader :: bool
  clearError :: bool

record suspended_refresh =
  options :: refresh_options
  awaited :: "thrown + request"

record session =
  page :: widget
  in_flight :: "suspended_refresh list"

text \<open>
  The first part: the two early returns, then the flag is set, the loader and the error
  line are updated, and \<^verbatim>\<open>fetchLiveWinProbability\<close> is started.
\<close>

definition refreshLiveWinProbability_enter ::
  "js_runtime \<Rightarrow> widget_config \<Rightarrow> refresh_options \<Rightarrow> session \<Rightarrow> session" where
  "refreshLiveWinProbability_enter rt cfg opts s =
     (if \<not> shouldShowWinprob cfg \<or> \<not> shouldShowLiveWinprob cfg then s
      else if isLiveWinprobRefreshing (page s) then s
      else let w1 = (page s)\<lparr>isLiveWinprobRefreshing := True\<rparr>;
               w2 = (if withLoader opts then setSectionLoading True w1 else w1);
               w3 = (if clearError opts then setSectionError [] w2 else w2)
           in \<lparr>page = w3,
               in_flight = in_flight s @
                 [\<lparr>options = opts, awaited = fetchLiveWinProbability_request rt cfg w3\<rparr>]\<rparr>)"

text \<open>
  The second part, when the awaited promise settles (\<open>outcome\<close> is what \<^verbatim>\<open>fetchJson\<close> threw
  or returned, for a call that sent a request): the \<^verbatim>\<open>try\<close>, the \<^verbatim>\<open>catch\<close> and the
  \<^verbatim>\<open>finally\<close>.
\<close>

definition refreshLiveWinProbability_resume ::
  "js_runtime \<Rightarrow> widget_config \<Rightarrow> suspended_refresh \<Rightarrow> thrown + jsval \<Rightarrow> widget \<Rightarrow> widget" where
  "refreshLiveWinProbability_resume rt cfg call outcome w =
     (let (result, w1) =
            (case awaited call of
               Inl e \<Rightarrow> (Inl e, w)
             | Inr req \<Rightarrow> fetchLiveWinProbability_settle rt cfg outcome w);
          w2 = (case result of
                  Inr payload \<Rightarrow> renderLiveWinProbability rt payload w1
                | Inl error \<Rightarrow>
                    if isNoActiveMatchError rt error then
                      renderLiveWinProbability rt (JObj [(''no_active_match'', JBool True)]) w1
                    else setSectionError (toFriendlyError rt error)
                           (renderLiveWinProbability rt JNull w1));
          w3 = (if withLoader (options call) then setSectionLoading False w2 else w2)
      in w3\<lparr>isLiveWinprobRefreshing := False\<rparr>)"

text \<open>
  What happens in a session, one event at a time on the single thread of the page: a
  call of \<^verbatim>\<open>refreshLiveWinProbability\<close> (by the interval timer of
  \<^verbatim>\<open>startLiveWinprobRefresh\<close> or by \<^verbatim>\<open>loadAllData\<close>), the settlement of a suspended call,
  or any other code of the script changing the widget, which never writes the flag.
\<close>

datatype event =
    Tick refresh_options
  | Settle nat "thrown + jsval"
  | Elsewhere "widget \<Rightarrow> widget"

fun step :: "js_runtime \<Rightarrow> widget_config \<Rightarrow> event \<Rightarrow> session \<Rightarrow> session" where
  "step rt cfg (Tick opts) s = refreshLiveWinProbability_enter rt cfg opts s"
| "step rt cfg (Settle i outcome) s =
     (if i < length (in_flight s) then
        \<lparr>page = refreshLiveWinProbability_resume rt cfg (in_flight s ! i) outcome (page s),
         in_flight = take i (in_flight s) @ drop (Suc i) (in_flight s)\<rparr>
      else s)"
| "step rt cfg (Elsewhere f) s =
     s\<lparr>page := (f (page s))\<lparr>isLiveWinprobRefreshing := isLiveWinprobRefreshing (page s)\<rparr>\<rparr>"

definition run :: "js_runtime \<Rightarrow> widget_config \<Rightarrow> event list \<Rightarrow> session \<Rightarrow> session" where
  "run rt cfg events s = fold (step rt cfg) events s"

text \<open>The requests of the live refresh that are on the network.\<close>

definition requests_in_flight :: "session \<Rightarrow> request list" where
  "requests_in_flight s =
     concat (map (\<lambda>call. case awaited call of Inl _ \<Rightarrow> [] | Inr req \<Rightarrow> [req]) (in_flight s))"

text \<open>
  The invariant of the live refresh: at most one call is suspended, and the flag is set
  exactly while one is.
\<close>

definition single_flight :: "session \<Rightarrow> bool" where
  "single_flight s \<longleftrightarrow>
     length (in_flight s) \<le> 1 \<and> (isLiveWinprobRefreshing (page s) \<longleftrightarrow> in_flight s \<noteq> [])"

section \<open>The logistic combiner\<close>

text \<open>
  Modelled from the spec: the logistic combiner of \<^verbatim>\<open>faceit_winprob.py\<close>, the script
  that the proxy runs, which is not among the sources (its README only says that the
  probability is bounded between 5 and 95 percent). From the difference of the two team
  averages, \<open>p_raw = 1 / (1 + exp (- k * diff))\<close> for a fixed steepness \<open>k\<close>, and the
  probability of team A is \<open>clamp p_raw 0.05 0.95\<close>. The reals stand for the floats.
\<close>

definition clamp :: "real \<Rightarrow> real \<Rightarrow> real \<Rightarrow> real" where
  "clamp x lo hi = max lo (min hi x)"

definition logistic :: "real \<Rightarrow> real \<Rightarrow> real" where
  "logistic k diff = 1 / (1 + exp (- k * diff))"

definition win_probability :: "real \<Rightarrow> real \<Rightarrow> real \<Rightarrow> real" where
  "win_probability k team_average_a team_average_b =
     clamp (logistic k (team_average_a - team_average_b)) 0.05 0.95"

section \<open>Notions used in the statements\<close>

subsection \<open>The phrases\<close>

text \<open>
  The three phrasings that \<^verbatim>\<open>matchesNoActiveMatchText\<close> looks for, and what it means for
  a text to contain one of them once lowercased.
\<close>

definition NO_ACTIVE_MATCH_PHRASES :: "string list" where
  "NO_ACTIVE_MATCH_PHRASES =
     [''aucune partie en cours'', ''no ongoing match'', ''no match in progress'']"

definition mentions_no_active_match :: "string \<Rightarrow> bool" where
  "mentions_no_active_match text \<longleftrightarrow>
     (\<exists>phrase\<in>set NO_ACTIVE_MATCH_PHRASES. sublist phrase (toLowerCase text))"

text \<open>
  The texts of a payload that \<^verbatim>\<open>isNoActiveMatchPayload\<close> searches: its \<^verbatim>\<open>error\<close> and
  its \<^verbatim>\<open>message\<close>, then those of its \<^verbatim>\<open>detail\<close> when that is an object, or the
  \<^verbatim>\<open>detail\<close> itself when it is a string.
\<close>

definition payload_texts :: "js_runtime \<Rightarrow> jsval \<Rightarrow> string list" where
  "payload_texts rt payload =
     [String_or_empty rt (get_prop payload ''error''),
      String_or_empty rt (get_prop payload ''message'')] @
     (let detail = get_prop payload ''detail''
      in if isPlainObject detail then
           [String_or_empty rt (get_prop detail ''error''),
            String_or_empty rt (get_prop detail ''message'')]
         else (case detail of JStr t \<Rightarrow> [t] | _ \<Rightarrow> []))"

subsection \<open>What a tick fetched\<close>

text \<open>
  What the \<^verbatim>\<open>fetchLiveWinProbability\<close> awaited by a suspended call throws (\<open>Inl\<close>) or
  returns (\<open>Inr\<close>) when it settles, as \<^verbatim>\<open>refreshLiveWinProbability\<close> receives it: this is
  the payload of the tick. \<open>outcome\<close> is what \<^verbatim>\<open>fetchJson\<close> threw or returned.
\<close>

definition fetchLiveWinProbability_outcome ::
  "js_runtime \<Rightarrow> widget_config \<Rightarrow> suspended_refresh \<Rightarrow> thrown + jsval \<Rightarrow> widget \<Rightarrow> thrown + jsval" where
  "fetchLiveWinProbability_outcome rt cfg call outcome w =
     fst (case awaited call of
            Inl e \<Rightarrow> (Inl e, w)
          | Inr req \<Rightarrow> fetchLiveWinProbability_settle rt cfg outcome w)"

text \<open>
  A tick reports no active match when that result is a payload flagged
  \<^verbatim>\<open>no_active_match\<close>, or an error that \<^verbatim>\<open>isNoActiveMatchError\<close> recognises.
\<close>

definition reports_no_active_match :: "js_runtime \<Rightarrow> thrown + jsval \<Rightarrow> bool" where
  "reports_no_active_match rt result =
     (case result of
        Inr payload \<Rightarrow> get_prop payload ''no_active_match'' = JBool True
      | Inl error \<Rightarrow> isNoActiveMatchError rt error)"

text \<open>
  What the live badge shows and retains: its accent, its value element, its meta line,
  and the retained sample.
\<close>

definition live_view ::
  "widget \<Rightarrow> string option \<times> live_value_element option \<times> string option \<times> number" where
  "live_view w = (liveWinprobBadge w, liveWinprobValue w, liveWinprobMeta w, lastLiveWinprobPct w)"

subsection \<open>Concrete surroundings\<close>

text \<open>
  A runtime whose \<^verbatim>\<open>URL\<close> accepts every base, for evaluating the functions at inputs
  that hold no number to convert; the configuration of the source with a nickname filled
  in; a widget with all its elements, as \<^verbatim>\<open>initWidget\<close> leaves them before the first
  fetch; and a network that answers every request alike.
\<close>

definition plain_runtime :: js_runtime where
  "plain_runtime =
     \<lparr>Number_of_string = (\<lambda>s. NaN), String_of_number = (\<lambda>n. ''NaN''),
      URL_TypeError = (\<lambda>base. None)\<rparr>"

definition CONFIG :: widget_config where
  "CONFIG =
     \<lparr>FACEIT_NICKNAME = ''Kerler'', PROXY_BASE_URL = ''http://127.0.0.1:8787'',
      WINPROB_ENABLED = True, LIVE_WINPROB_ENABLED = True, WINPROB_MATCH_ID = [],
      WINPROB_FETCH_TIMEOUT_MS = Finite 45000, LIVE_WINPROB_FETCH_TIMEOUT_MS = Finite 45000\<rparr>"

definition mounted_widget :: widget where
  "mounted_widget =
     \<lparr>winprobBadge = Some ''#888888'', winprobValue = Some NoValue,
      winprobMeta = Some ''Aucune partie en cours'',
      liveWinprobBadge = Some ''#888888'',
      liveWinprobValue =
        Some \<lparr>live_text = NoValue, has_delta = False, data_delta = None, data_delta_dir = None\<rparr>,
      liveWinprobMeta = Some ''Live indisponible'',
      winprobBusy = Some False, winprobError = Some [],
      resolvedMatchId = [], lastLiveWinprobPct = NaN, isLiveWinprobRefreshing = False\<rparr>"

definition reply_with :: "thrown + jsval \<Rightarrow> request \<Rightarrow> thrown + jsval" where
  "reply_with outcome req = outcome"

text \<open>
  An idle session of that page, the retained sample being \<open>previous\<close>; the options that
  the interval timer of \<^verbatim>\<open>startLiveWinprobRefresh\<close> passes; the request that a tick sends
  under \<open>CONFIG\<close>; and the session in which that tick is suspended on its request, which
  is what the tick makes of the idle session (\<open>tick_on_idle_session\<close> below).
\<close>

definition idle_session :: "number \<Rightarrow> session" where
  "idle_session previous =
     \<lparr>page = mounted_widget\<lparr>lastLiveWinprobPct := previous\<rparr>, in_flight = []\<rparr>"

definition timer_options :: refresh_options where
  "timer_options = \<lparr>withLoader = False, clearError = False\<rparr>"

definition live_request :: request where
  "live_request =
     \<lparr>endpoint = ''live-win-probability'', base_url = ''http://127.0.0.1:8787/'',
      query = [(''nickname'', ''Kerler'')], timeout_ms = Finite 45000\<rparr>"

definition waiting_session :: "number \<Rightarrow> session" where
  "waiting_session previous =
     \<lparr>page = mounted_widget\<lparr>lastLiveWinprobPct := previous, isLiveWinprobRefreshing := True\<rparr>,
      in_flight = [\<lparr>options = timer_options, awaited = Inr live_request\<rparr>]\<rparr>"

text \<open>
  A live payload with one field, holding the double that the JSON text \<open>x\<close> denotes.
\<close>

definition live_payload :: "string \<Rightarrow> real \<Rightarrow> jsval" where
  "live_payload field x = JObj [(field, JNum (Finite (round_double x)))]"


section \<open>Properties of the proxy server\<close>

lemma winprob_args_JSON_parse [simp]:
  "winprob_args (env\<lparr>JSON_parse := p\<rparr>) nickname matchId = winprob_args env nickname matchId"
  by (simp add: winprob_args_def)

text \<open>
  Claim C1. When the script directory exists, the child was spawned and \<^verbatim>\<open>spawnProcess\<close>
  reports \<^verbatim>\<open>timedOut\<close>, \<^verbatim>\<open>runWinProbability\<close> throws the timeout failure, whose detail
  is the captured standard error, or the captured standard output when the standard error
  is empty. This holds whatever the standard output contains and whatever \<^verbatim>\<open>JSON.parse\<close>
  would make of it: the marker is not consulted.
\<close>

theorem runWinProbability_timeout:
  assumes "WINPROB_DIR_exists env"
    and "spawnProcess env (winprob_args env nickname matchId) = Inr r"
    and "timedOut r"
  shows "runWinProbability (env\<lparr>JSON_parse := p\<rparr>) nickname matchId =
           Inl (TimeoutFailure (if stderr r \<noteq> [] then stderr r else stdout r))"
  using assms by (simp add: runWinProbability_def or_else_def)

theorem runWinProbability_timeout_witness:
  "WINPROB_DIR_exists \<lparr>WINPROB_DIR_exists = True, WINPROB_SCRIPT = ''faceit_winprob.py'',
       spawnProcess = (\<lambda>args. Inr \<lparr>code = 0, stdout = ''__WINPROB_JSON__{}'', stderr = [], timedOut = True\<rparr>),
       JSON_parse = (\<lambda>raw. None)\<rparr> \<and>
   runWinProbability
     \<lparr>WINPROB_DIR_exists = True, WINPROB_SCRIPT = ''faceit_winprob.py'',
       spawnProcess = (\<lambda>args. Inr \<lparr>code = 0, stdout = ''__WINPROB_JSON__{}'', stderr = [], timedOut = True\<rparr>),
       JSON_parse = (\<lambda>raw. if raw = ''{}'' then Some (JObj []) else None)\<rparr> ''Kerler'' [] =
   Inl (TimeoutFailure ''__WINPROB_JSON__{}'')"
  using runWinProbability_timeout
    [of "\<lparr>WINPROB_DIR_exists = True, WINPROB_SCRIPT = ''faceit_winprob.py'',
       spawnProcess = (\<lambda>args. Inr \<lparr>code = 0, stdout = ''__WINPROB_JSON__{}'', stderr = [], timedOut = True\<rparr>),
       JSON_parse = (\<lambda>raw. None)\<rparr>" "''Kerler''" "[]"
       "\<lparr>code = 0, stdout = ''__WINPROB_JSON__{}'', stderr = [], timedOut = True\<rparr>"
       "\<lambda>raw. if raw = ''{}'' then Some (JObj []) else None"]
  by simp

subsection \<open>Marker extraction\<close>

lemma scan_lines_skip:
  "\<forall>x\<in>set later. \<not> prefix marker x \<Longrightarrow>
   scan_lines parse marker (later @ rest) = scan_lines parse marker rest"
  by (induction later) auto

lemma scan_lines_decided:
  assumes "marked_lines out = before @ l # after"
    and "prefix marker l"
    and "\<forall>x\<in>set after. \<not> prefix marker x"
  shows "parseMarkedPayload parse out marker =
           (case parse (trim (drop (length marker) l)) of Some v \<Rightarrow> v | None \<Rightarrow> JNull)"
proof -
  have "rev (marked_lines out) = rev after @ l # rev before"
    using assms(1) by simp
  moreover have "\<forall>x\<in>set (rev after). \<not> prefix marker x"
    using assms(3) by simp
  ultimately have "parseMarkedPayload parse out marker = scan_lines parse marker (l # rev before)"
    unfolding parseMarkedPayload_def by (simp add: scan_lines_skip)
  then show ?thesis
    using assms(2) by simp
qed

lemma marked_lines_split:
  assumes "split_lines out = before @ l # after" and "trim l \<noteq> []"
  shows "marked_lines out =
           filter (\<lambda>line. line \<noteq> []) (map trim before) @ trim l #
           filter (\<lambda>line. line \<noteq> []) (map trim after)"
  using assms by (simp add: marked_lines_def)

lemma parseMarkedPayload_no_marker_line:
  assumes "\<forall>x\<in>set (split_lines out). \<not> prefix marker (trim x)"
  shows "parseMarkedPayload parse out marker = JNull"
proof -
  have "\<forall>x\<in>set (rev (marked_lines out)). \<not> prefix marker x"
    using assms by (auto simp: marked_lines_def)
  from scan_lines_skip [OF this, of parse "[]"] show ?thesis
    by (simp add: parseMarkedPayload_def)
qed

text \<open>
  A line that begins with the marker still does once trimmed, for a marker without white
  space such as the two of the proxy.
\<close>

lemma trim_keeps_marker:
  assumes "prefix marker l" and "marker \<noteq> []" and "\<forall>c\<in>set marker. \<not> is_ws c"
  shows "prefix marker (trim l)"
proof -
  from assms(1) obtain rest where l: "l = marker @ rest"
    by (auto simp: prefix_def)
  from assms(2) obtain m ms where m: "marker = m # ms"
    by (cases marker) auto
  with assms(3) have "\<not> is_ws m"
    by simp
  then have left: "dropWhile is_ws (marker @ rest) = marker @ rest"
    by (simp add: m)
  from assms(2,3) have "\<not> is_ws (last marker)"
    by simp
  then have "\<not> is_ws (hd (rev marker))"
    using assms(2) by (simp add: hd_rev)
  moreover have "rev marker \<noteq> []"
    using assms(2) by simp
  ultimately have right: "dropWhile is_ws (rev marker) = rev marker"
    by (cases "rev marker") auto
  have "dropWhile is_ws (rev rest @ rev marker) =
          (if \<forall>x\<in>set (rev rest). is_ws x then rev marker else dropWhile is_ws (rev rest) @ rev marker)"
    by (simp only: dropWhile_append right)
  then have "rev (dropWhile is_ws (rev rest @ rev marker)) = marker @ rev (dropWhile is_ws (rev rest))"
    by (auto simp: dropWhile_eq_Nil_conv)
  then have "trim l = marker @ rev (dropWhile is_ws (rev rest))"
    unfolding trim_def l left by simp
  then show ?thesis
    by simp
qed


lemma WINPROB_MARKER_plain: "WINPROB_MARKER \<noteq> []" "\<forall>c\<in>set WINPROB_MARKER. \<not> is_ws c"
  by (simp_all add: WINPROB_MARKER_def is_ws_def)

lemma MATCH_RESOLVE_MARKER_plain:
  "MATCH_RESOLVE_MARKER \<noteq> []" "\<forall>c\<in>set MATCH_RESOLVE_MARKER. \<not> is_ws c"
  by (simp_all add: MATCH_RESOLVE_MARKER_def is_ws_def)

text \<open>
  Claim C2. \<^verbatim>\<open>parseMarkedPayload\<close> returns what the last marker line of the stream
  holds. A line is a marker line when, once the white space around it is stripped as the
  code does before testing, it starts with the marker. Whatever lines come before
  (marker lines or not), and whatever lines that are not marker lines come after, the
  result is the parsed remainder of that line (\<^verbatim>\<open>null\<close> when it does not parse).
\<close>

theorem parseMarkedPayload_last_marker_line:
  assumes "split_lines out = before @ l # after"
    and "marker \<noteq> []"
    and "prefix marker (trim l)"
    and "\<forall>x\<in>set after. \<not> prefix marker (trim x)"
  shows "parseMarkedPayload parse out marker =
           (case parse (trim (drop (length marker) (trim l))) of Some v \<Rightarrow> v | None \<Rightarrow> JNull)"
proof -
  have "trim l \<noteq> []"
    using assms(2,3) by auto
  then have a: "marked_lines out =
           filter (\<lambda>line. line \<noteq> []) (map trim before) @ trim l #
           filter (\<lambda>line. line \<noteq> []) (map trim after)"
    using assms(1) by (rule marked_lines_split[rotated])
  have b: "\<forall>x\<in>set (filter (\<lambda>line. line \<noteq> []) (map trim after)). \<not> prefix marker x"
    using assms(4) by auto
  show ?thesis
    using a assms(3) b by (rule scan_lines_decided)
qed

theorem parseMarkedPayload_last_marker_line_witness:
  "parseMarkedPayload (\<lambda>raw. if raw = ''{}'' then Some (JObj []) else if raw = ''[]'' then Some (JArr []) else None)
     (''log'' @ [CHR 0x0A] @ ''__WINPROB_JSON__{}'' @ [CHR 0x0D, CHR 0x0A] @ ''noise'' @ [CHR 0x0A] @
      '' __WINPROB_JSON__ []'' @ [CHR 0x0A] @ ''bye'' @ [CHR 0x0A])
     WINPROB_MARKER = JArr []"
  using parseMarkedPayload_last_marker_line
    [of "''log'' @ [CHR 0x0A] @ ''__WINPROB_JSON__{}'' @ [CHR 0x0D, CHR 0x0A] @ ''noise'' @ [CHR 0x0A] @
      '' __WINPROB_JSON__ []'' @ [CHR 0x0A] @ ''bye'' @ [CHR 0x0A]"
      "[''log'', ''__WINPROB_JSON__{}'', ''noise'']" "'' __WINPROB_JSON__ []''" "[''bye'', []]"
      WINPROB_MARKER
      "\<lambda>raw. if raw = ''{}'' then Some (JObj []) else if raw = ''[]'' then Some (JArr []) else None"]
  by (simp add: WINPROB_MARKER_def trim_def is_ws_def)

subsection \<open>Outcome without a payload\<close>

text \<open>
  Claim C3. When the child was spawned, did not time out and \<^verbatim>\<open>parseMarkedPayload\<close>
  gives no payload (\<^verbatim>\<open>null\<close>, the result when no marker line is found or the line does
  not parse; any falsy value is treated alike), the exit status decides: a non-zero
  status gives the invocation failure with the exit code and the captured output
  (standard error, or standard output when the standard error is empty), status zero gives
  the missing-payload failure.
\<close>

theorem runWinProbability_no_payload:
  assumes "WINPROB_DIR_exists env"
    and "spawnProcess env (winprob_args env nickname matchId) = Inr r"
    and "\<not> timedOut r"
    and "\<not> truthy (parseMarkedPayload (JSON_parse env) (stdout r) WINPROB_MARKER)"
  shows "runWinProbability env nickname matchId =
           (if code r \<noteq> 0
            then Inl (InvocationFailure (code r) (if stderr r \<noteq> [] then stderr r else stdout r))
            else Inl (PayloadMissing (stdout r)))"
  using assms by (simp add: runWinProbability_def or_else_def)

theorem runWinProbability_no_payload_witness:
  "runWinProbability
     \<lparr>WINPROB_DIR_exists = True, WINPROB_SCRIPT = ''faceit_winprob.py'',
       spawnProcess = (\<lambda>args. Inr \<lparr>code = 1, stdout = ''starting'', stderr = ''Traceback'', timedOut = False\<rparr>),
       JSON_parse = (\<lambda>raw. if raw = ''{}'' then Some (JObj []) else None)\<rparr> ''Kerler'' [] =
   Inl (InvocationFailure 1 ''Traceback'') \<and>
   runWinProbability
     \<lparr>WINPROB_DIR_exists = True, WINPROB_SCRIPT = ''faceit_winprob.py'',
       spawnProcess = (\<lambda>args. Inr \<lparr>code = 0, stdout = ''starting'', stderr = ''warning'', timedOut = False\<rparr>),
       JSON_parse = (\<lambda>raw. if raw = ''{}'' then Some (JObj []) else None)\<rparr> ''Kerler'' [] =
   Inl (PayloadMissing ''starting'')"
  using runWinProbability_no_payload
    [of "\<lparr>WINPROB_DIR_exists = True, WINPROB_SCRIPT = ''faceit_winprob.py'',
       spawnProcess = (\<lambda>args. Inr \<lparr>code = 1, stdout = ''starting'', stderr = ''Traceback'', timedOut = False\<rparr>),
       JSON_parse = (\<lambda>raw. if raw = ''{}'' then Some (JObj []) else None)\<rparr>" "''Kerler''" "[]"
       "\<lparr>code = 1, stdout = ''starting'', stderr = ''Traceback'', timedOut = False\<rparr>"]
    runWinProbability_no_payload
    [of "\<lparr>WINPROB_DIR_exists = True, WINPROB_SCRIPT = ''faceit_winprob.py'',
       spawnProcess = (\<lambda>args. Inr \<lparr>code = 0, stdout = ''starting'', stderr = ''warning'', timedOut = False\<rparr>),
       JSON_parse = (\<lambda>raw. if raw = ''{}'' then Some (JObj []) else None)\<rparr>" "''Kerler''" "[]"
       "\<lparr>code = 0, stdout = ''starting'', stderr = ''warning'', timedOut = False\<rparr>"]
  by (simp add: parseMarkedPayload_def marked_lines_def trim_def is_ws_def WINPROB_MARKER_def)

text \<open>
  Claim C9. When the last marker line of the standard output does not parse,
  \<^verbatim>\<open>parseMarkedPayload\<close> returns \<^verbatim>\<open>null\<close>, whatever the lines before it hold, and an
  invocation that exited with status zero without timing out is reported as the
  missing-payload failure. The instance below has a valid marker line followed by a
  malformed one.
\<close>

theorem malformed_last_marker_line_hides_earlier_payload:
  assumes "split_lines (stdout r) = before @ l # after"
    and "prefix WINPROB_MARKER (trim l)"
    and "\<forall>x\<in>set after. \<not> prefix WINPROB_MARKER (trim x)"
    and "JSON_parse env (trim (drop (length WINPROB_MARKER) (trim l))) = None"
  shows "parseMarkedPayload (JSON_parse env) (stdout r) WINPROB_MARKER = JNull \<and>
         (WINPROB_DIR_exists env \<and> spawnProcess env (winprob_args env nickname matchId) = Inr r \<and>
          \<not> timedOut r \<and> code r = 0 \<longrightarrow>
          runWinProbability env nickname matchId = Inl (PayloadMissing (stdout r)))"
proof -
  have "WINPROB_MARKER \<noteq> []"
    by (simp add: WINPROB_MARKER_def)
  then have "trim l \<noteq> []"
    using assms(2) by auto
  then have a: "marked_lines (stdout r) =
           filter (\<lambda>line. line \<noteq> []) (map trim before) @ trim l #
           filter (\<lambda>line. line \<noteq> []) (map trim after)"
    using assms(1) by (simp add: marked_lines_split)
  have b: "\<forall>x\<in>set (filter (\<lambda>line. line \<noteq> []) (map trim after)). \<not> prefix WINPROB_MARKER x"
    using assms(3) by auto
  have null: "parseMarkedPayload (JSON_parse env) (stdout r) WINPROB_MARKER = JNull"
    using scan_lines_decided [OF a assms(2) b, of "JSON_parse env"] assms(4) by simp
  then show ?thesis
    by (simp add: runWinProbability_def)
qed

theorem malformed_last_marker_line_hides_earlier_payload_witness:
  "parseMarkedPayload (\<lambda>raw. if raw = ''{}'' then Some (JObj []) else None)
     (''__WINPROB_JSON__{}'' @ [CHR 0x0A] @ ''__WINPROB_JSON__{'' @ [CHR 0x0A]) WINPROB_MARKER = JNull \<and>
   parseMarkedPayload (\<lambda>raw. if raw = ''{}'' then Some (JObj []) else None)
     (''__WINPROB_JSON__{}'' @ [CHR 0x0A]) WINPROB_MARKER = JObj [] \<and>
   runWinProbability
     \<lparr>WINPROB_DIR_exists = True, WINPROB_SCRIPT = ''faceit_winprob.py'',
       spawnProcess = (\<lambda>args. Inr \<lparr>code = 0,
          stdout = ''__WINPROB_JSON__{}'' @ [CHR 0x0A] @ ''__WINPROB_JSON__{'' @ [CHR 0x0A],
          stderr = [], timedOut = False\<rparr>),
       JSON_parse = (\<lambda>raw. if raw = ''{}'' then Some (JObj []) else None)\<rparr> ''Kerler'' [] =
   Inl (PayloadMissing (''__WINPROB_JSON__{}'' @ [CHR 0x0A] @ ''__WINPROB_JSON__{'' @ [CHR 0x0A]))"
  using malformed_last_marker_line_hides_earlier_payload
    [of "\<lparr>code = 0,
          stdout = ''__WINPROB_JSON__{}'' @ [CHR 0x0A] @ ''__WINPROB_JSON__{'' @ [CHR 0x0A],
          stderr = [], timedOut = False\<rparr>"
        "[''__WINPROB_JSON__{}'']" "''__WINPROB_JSON__{''" "[[]]"
        "\<lparr>WINPROB_DIR_exists = True, WINPROB_SCRIPT = ''faceit_winprob.py'',
       spawnProcess = (\<lambda>args. Inr \<lparr>code = 0,
          stdout = ''__WINPROB_JSON__{}'' @ [CHR 0x0A] @ ''__WINPROB_JSON__{'' @ [CHR 0x0A],
          stderr = [], timedOut = False\<rparr>),
       JSON_parse = (\<lambda>raw. if raw = ''{}'' then Some (JObj []) else None)\<rparr>" "''Kerler''" "[]"]
  by (simp add: parseMarkedPayload_def marked_lines_def trim_def is_ws_def WINPROB_MARKER_def)

section \<open>Properties of the widget\<close>

subsection \<open>No active match at the boundary\<close>

lemmas text_eval =
  matchesNoActiveMatchText_def toLowerCase_def lower_char_def String_or_empty_def
  char_of_def bit_Suc_0_iff trim_def is_ws_def

lemma js_includes_sublist: "js_includes t p \<longleftrightarrow> sublist p t"
  by (induction t) (auto simp: sublist_Cons_right)

lemma matchesNoActiveMatchText_iff:
  "matchesNoActiveMatchText rt v \<longleftrightarrow> mentions_no_active_match (String_or_empty rt v)"
  by (auto simp: matchesNoActiveMatchText_def mentions_no_active_match_def
      NO_ACTIVE_MATCH_PHRASES_def js_includes_sublist Let_def)

lemma String_or_empty_JStr: "String_or_empty rt (JStr t) = t"
  by (simp add: String_or_empty_def)

lemma isNoActiveMatchError_iff:
  "isNoActiveMatchError rt e \<longleftrightarrow> mentions_no_active_match (thrown_message rt e)"
  by (simp add: isNoActiveMatchError_def matchesNoActiveMatchText_iff String_or_empty_JStr)

lemma isNoActiveMatchPayload_iff:
  "isPlainObject payload \<Longrightarrow>
   isNoActiveMatchPayload rt payload \<longleftrightarrow>
     (\<exists>t\<in>set (payload_texts rt payload). mentions_no_active_match t)"
  by (auto simp: isNoActiveMatchPayload_def payload_texts_def matchesNoActiveMatchText_iff Let_def
      String_or_empty_JStr split: jsval.splits)

lemma map_of_obj_update: "map_of (obj_update k v ps) = (map_of ps)(k \<mapsto> v)"
  by (induction ps) (auto simp: fun_eq_iff)

lemma get_prop_no_active_match_flag:
  "isPlainObject payload \<Longrightarrow>
   get_prop (spread_with payload [(''no_active_match'', JBool True), (''win_probability'', JNull)])
     ''no_active_match'' = JBool True"
  by (cases payload) (simp_all add: map_of_obj_update)

lemma request_CONFIG:
  "fetchWinProbability_request plain_runtime CONFIG mounted_widget =
     Inr \<lparr>endpoint = ''win-probability'', base_url = ''http://127.0.0.1:8787/'',
          query = [(''nickname'', ''Kerler'')], timeout_ms = Finite 45000\<rparr>"
  by (simp add: fetchWinProbability_request_def plain_runtime_def CONFIG_def mounted_widget_def
      getEffectiveMatchId_def or_else_def ensureTrailingSlash_def trim_def is_ws_def
      asFiniteNumber_def Let_def suffix_to_prefix)

lemma mentions_eval:
  "mentions_no_active_match text \<longleftrightarrow>
     js_includes (toLowerCase text) ''aucune partie en cours'' \<or>
     js_includes (toLowerCase text) ''no ongoing match'' \<or>
     js_includes (toLowerCase text) ''no match in progress''"
  by (simp add: mentions_no_active_match_def NO_ACTIVE_MATCH_PHRASES_def js_includes_sublist)

text \<open>
  Claim C8, as amended. Let the request be built (nickname and proxy base present, base
  accepted). When \<^verbatim>\<open>fetchJson\<close> throws, \<^verbatim>\<open>fetchWinProbability\<close> returns the object
  \<^verbatim>\<open>{ok: true, no_active_match: true, win_probability: null}\<close> if the message of the
  error, lowercased, contains one of the three phrases, and rethrows the error otherwise.
  When \<^verbatim>\<open>fetchJson\<close> returns a plain object whose \<^verbatim>\<open>ok\<close> is \<^verbatim>\<open>false\<close>, it returns the
  payload with \<^verbatim>\<open>no_active_match: true\<close> and \<^verbatim>\<open>win_probability: null\<close> if one of the
  texts searched (the payload's \<^verbatim>\<open>error\<close> and \<^verbatim>\<open>message\<close>, and its \<^verbatim>\<open>detail\<close>: the
  \<^verbatim>\<open>error\<close> and \<^verbatim>\<open>message\<close> of an object, or a string itself), lowercased, contains
  one of the phrases, and throws otherwise. In both cases every returned result carries
  \<^verbatim>\<open>no_active_match = true\<close>.
\<close>

theorem fetchWinProbability_no_active_match:
  assumes "fetchWinProbability_request rt cfg w = Inr req"
  shows "(fetchJson req = Inl e \<longrightarrow>
            fst (fetchWinProbability rt cfg fetchJson w) =
              (if mentions_no_active_match (thrown_message rt e)
               then Inr (JObj [(''ok'', JBool True), (''no_active_match'', JBool True),
                               (''win_probability'', JNull)])
               else Inl e)) \<and>
         (fetchJson req = Inr payload \<and> isPlainObject payload \<and>
          get_prop payload ''ok'' = JBool False \<longrightarrow>
            fst (fetchWinProbability rt cfg fetchJson w) =
              (if \<exists>t\<in>set (payload_texts rt payload). mentions_no_active_match t
               then Inr (spread_with payload
                           [(''no_active_match'', JBool True), (''win_probability'', JNull)])
               else Inl (Error (js_String rt
                           (or_val (get_prop payload ''error'')
                                   (JStr ''Calcul win probability impossible.'')))))) \<and>
         ((fetchJson req = Inl e \<or>
           (fetchJson req = Inr payload \<and> isPlainObject payload \<and>
            get_prop payload ''ok'' = JBool False)) \<and>
          fst (fetchWinProbability rt cfg fetchJson w) = Inr result \<longrightarrow>
            get_prop result ''no_active_match'' = JBool True)"
proof -
  have err: "fst (fetchWinProbability rt cfg fetchJson w) =
              (if mentions_no_active_match (thrown_message rt e)
               then Inr (JObj [(''ok'', JBool True), (''no_active_match'', JBool True),
                               (''win_probability'', JNull)])
               else Inl e)" if "fetchJson req = Inl e"
    using assms that
    by (simp add: fetchWinProbability_def fetchWinProbability_settle_def isNoActiveMatchError_iff)
  have notok: "fst (fetchWinProbability rt cfg fetchJson w) =
              (if \<exists>t\<in>set (payload_texts rt payload). mentions_no_active_match t
               then Inr (spread_with payload
                           [(''no_active_match'', JBool True), (''win_probability'', JNull)])
               else Inl (Error (js_String rt
                           (or_val (get_prop payload ''error'')
                                   (JStr ''Calcul win probability impossible.'')))))"
    if "fetchJson req = Inr payload" "isPlainObject payload" "get_prop payload ''ok'' = JBool False"
    using assms that
    by (simp add: fetchWinProbability_def fetchWinProbability_settle_def
        isNoActiveMatchPayload_iff)
  have flag: "get_prop result ''no_active_match'' = JBool True"
    if "fetchJson req = Inl e \<or>
        (fetchJson req = Inr payload \<and> isPlainObject payload \<and>
         get_prop payload ''ok'' = JBool False)"
      and "fst (fetchWinProbability rt cfg fetchJson w) = Inr result"
  proof -
    from that(1) show ?thesis
    proof
      assume "fetchJson req = Inl e"
      from err [OF this] that(2) show ?thesis
        by (auto split: if_splits)
    next
      assume p: "fetchJson req = Inr payload \<and> isPlainObject payload \<and>
         get_prop payload ''ok'' = JBool False"
      then have "fst (fetchWinProbability rt cfg fetchJson w) =
              (if \<exists>t\<in>set (payload_texts rt payload). mentions_no_active_match t
               then Inr (spread_with payload
                           [(''no_active_match'', JBool True), (''win_probability'', JNull)])
               else Inl (Error (js_String rt
                           (or_val (get_prop payload ''error'')
                                   (JStr ''Calcul win probability impossible.'')))))"
        by (simp add: notok)
      with that(2) p show ?thesis
        by (auto split: if_splits simp: get_prop_no_active_match_flag)
    qed
  qed
  from err notok flag show ?thesis
    by blast
qed

theorem fetchWinProbability_no_active_match_witness:
  "fst (fetchWinProbability plain_runtime CONFIG
          (reply_with (Inl (Error ''HTTP 400 - Aucune partie en cours pour Kerler''))) mounted_widget) =
     Inr (JObj [(''ok'', JBool True), (''no_active_match'', JBool True), (''win_probability'', JNull)]) \<and>
   fst (fetchWinProbability plain_runtime CONFIG
          (reply_with (Inl (Error ''HTTP 502 - Bad Gateway''))) mounted_widget) =
     Inl (Error ''HTTP 502 - Bad Gateway'') \<and>
   fst (fetchWinProbability plain_runtime CONFIG
          (reply_with (Inr (JObj [(''ok'', JBool False), (''error'', JStr ''No ongoing match found'')])))
          mounted_widget) =
     Inr (JObj [(''ok'', JBool False), (''error'', JStr ''No ongoing match found''),
                (''no_active_match'', JBool True), (''win_probability'', JNull)]) \<and>
   fst (fetchWinProbability plain_runtime CONFIG
          (reply_with (Inr (JObj [(''ok'', JBool False), (''error'', JStr ''Player not found'')])))
          mounted_widget) =
     Inl (Error ''Player not found'')"
  using
    fetchWinProbability_no_active_match [OF request_CONFIG,
      of "reply_with (Inl (Error ''HTTP 400 - Aucune partie en cours pour Kerler''))"
         "Error ''HTTP 400 - Aucune partie en cours pour Kerler''" JNull JNull]
    fetchWinProbability_no_active_match [OF request_CONFIG,
      of "reply_with (Inl (Error ''HTTP 502 - Bad Gateway''))"
         "Error ''HTTP 502 - Bad Gateway''" JNull JNull]
    fetchWinProbability_no_active_match [OF request_CONFIG,
      of "reply_with (Inr (JObj [(''ok'', JBool False), (''error'', JStr ''No ongoing match found'')]))"
         "Error []" "JObj [(''ok'', JBool False), (''error'', JStr ''No ongoing match found'')]" JNull]
    fetchWinProbability_no_active_match [OF request_CONFIG,
      of "reply_with (Inr (JObj [(''ok'', JBool False), (''error'', JStr ''Player not found'')]))"
         "Error []" "JObj [(''ok'', JBool False), (''error'', JStr ''Player not found'')]" JNull]
  by (simp add: reply_with_def mentions_eval payload_texts_def or_val_def text_eval)

text \<open>
  Claim C8 as first stated fails on a not-ok payload whose \<^verbatim>\<open>error\<close> holds no phrase
  and whose \<^verbatim>\<open>message\<close> is absent, but whose \<^verbatim>\<open>detail\<close> holds one: it is not
  propagated as a failure.
\<close>

theorem detail_alone_counterexample:
  "\<not> matchesNoActiveMatchText plain_runtime
       (get_prop (JObj [(''ok'', JBool False), (''error'', JStr ''Calcul impossible''),
                        (''detail'', JStr ''no ongoing match'')]) ''error'') \<and>
   \<not> matchesNoActiveMatchText plain_runtime
       (get_prop (JObj [(''ok'', JBool False), (''error'', JStr ''Calcul impossible''),
                        (''detail'', JStr ''no ongoing match'')]) ''message'') \<and>
   fst (fetchWinProbability plain_runtime CONFIG
          (reply_with (Inr (JObj [(''ok'', JBool False), (''error'', JStr ''Calcul impossible''),
                                  (''detail'', JStr ''no ongoing match'')])))
          mounted_widget) =
     Inr (JObj [(''ok'', JBool False), (''error'', JStr ''Calcul impossible''),
                (''detail'', JStr ''no ongoing match''),
                (''no_active_match'', JBool True), (''win_probability'', JNull)])"
  by (simp add: fetchWinProbability_def request_CONFIG fetchWinProbability_settle_def reply_with_def
      isNoActiveMatchPayload_def text_eval)


subsection \<open>Rendering the probability\<close>





subsection \<open>One live refresh at a time\<close>

lemma enter_skips:
  "isLiveWinprobRefreshing (page s) \<Longrightarrow> refreshLiveWinProbability_enter rt cfg opts s = s"
  by (simp add: refreshLiveWinProbability_enter_def)

lemma setSectionLoading_flag [simp]:
  "isLiveWinprobRefreshing (setSectionLoading b w) = isLiveWinprobRefreshing w"
  by (simp add: setSectionLoading_def split: option.splits)

lemma setSectionError_flag [simp]:
  "isLiveWinprobRefreshing (setSectionError m w) = isLiveWinprobRefreshing w"
  by (simp add: setSectionError_def split: option.splits)

lemma enter_single_flight:
  assumes "single_flight s"
  shows "single_flight (refreshLiveWinProbability_enter rt cfg opts s)"
proof (cases "isLiveWinprobRefreshing (page s)")
  case True
  then show ?thesis
    using assms by (simp add: enter_skips)
next
  case False
  then have "in_flight s = []"
    using assms by (simp add: single_flight_def)
  then show ?thesis
    using assms False
    by (simp add: refreshLiveWinProbability_enter_def single_flight_def Let_def)
qed

lemma resume_flag [simp]:
  "\<not> isLiveWinprobRefreshing (refreshLiveWinProbability_resume rt cfg call outcome w)"
  by (simp add: refreshLiveWinProbability_resume_def Let_def split: prod.splits)

lemma step_single_flight:
  assumes "single_flight s"
  shows "single_flight (step rt cfg e s)"
proof (cases e)
  case (Tick opts)
  then show ?thesis
    using assms by (simp add: enter_single_flight)
next
  case (Settle i outcome)
  show ?thesis
  proof (cases "i < length (in_flight s)")
    case True
    with assms have "i = 0" "length (in_flight s) = 1"
      by (simp_all add: single_flight_def)
    then show ?thesis
      using Settle by (simp add: single_flight_def)
  next
    case False
    then show ?thesis
      using Settle assms by simp
  qed
next
  case (Elsewhere f)
  then show ?thesis
    using assms by (simp add: single_flight_def)
qed

lemma run_single_flight:
  "single_flight s \<Longrightarrow> single_flight (run rt cfg events s)"
  unfolding run_def
  by (induction events arbitrary: s) (simp_all add: step_single_flight)

lemma length_requests_in_flight:
  "length (requests_in_flight s) \<le> length (in_flight s)"
proof -
  have "length (concat (map (\<lambda>call. case awaited call of Inl _ \<Rightarrow> [] | Inr req \<Rightarrow> [req]) cs))
          \<le> length cs" for cs :: "suspended_refresh list"
    by (induction cs) (auto split: sum.splits)
  then show ?thesis
    by (simp add: requests_in_flight_def)
qed

text \<open>
  Claim C6. A call of \<^verbatim>\<open>refreshLiveWinProbability\<close> made while the flag
  \<^verbatim>\<open>isLiveWinprobRefreshing\<close> is set returns at once: the session is unchanged, nothing is
  suspended or queued and no request is sent. Hence, from a session where the flag is
  clear and nothing is suspended, whatever the events that follow (calls, settlements in
  any order, other code touching the widget), at most one call of the live refresh is
  suspended, so at most one of its requests is on the network, and the flag is set exactly
  while a call is suspended.
\<close>

theorem live_refresh_single_flight:
  "(isLiveWinprobRefreshing (page s) \<longrightarrow>
      refreshLiveWinProbability_enter rt cfg opts s = s \<and>
      requests_in_flight (refreshLiveWinProbability_enter rt cfg opts s) = requests_in_flight s) \<and>
   (\<not> isLiveWinprobRefreshing (page s) \<and> in_flight s = [] \<longrightarrow>
      length (in_flight (run rt cfg events s)) \<le> 1 \<and>
      length (requests_in_flight (run rt cfg events s)) \<le> 1 \<and>
      (isLiveWinprobRefreshing (page (run rt cfg events s)) \<longleftrightarrow>
         in_flight (run rt cfg events s) \<noteq> []))"
proof (intro conjI impI)
  assume "isLiveWinprobRefreshing (page s)"
  then show "refreshLiveWinProbability_enter rt cfg opts s = s"
    by (rule enter_skips)
  then show "requests_in_flight (refreshLiveWinProbability_enter rt cfg opts s) = requests_in_flight s"
    by simp
next
  assume "\<not> isLiveWinprobRefreshing (page s) \<and> in_flight s = []"
  then have "single_flight s"
    by (simp add: single_flight_def)
  then have inv: "single_flight (run rt cfg events s)"
    by (rule run_single_flight)
  then show "length (in_flight (run rt cfg events s)) \<le> 1"
    by (simp add: single_flight_def)
  with length_requests_in_flight [of "run rt cfg events s"]
  show "length (requests_in_flight (run rt cfg events s)) \<le> 1"
    by simp
  from inv show "isLiveWinprobRefreshing (page (run rt cfg events s)) \<longleftrightarrow>
         in_flight (run rt cfg events s) \<noteq> []"
    by (simp add: single_flight_def)
qed

lemma first_tick_sets_flag:
  "isLiveWinprobRefreshing (page (refreshLiveWinProbability_enter plain_runtime CONFIG
       \<lparr>withLoader = False, clearError = False\<rparr> \<lparr>page = mounted_widget, in_flight = []\<rparr>))"
  by (simp add: refreshLiveWinProbability_enter_def shouldShowWinprob_def shouldShowLiveWinprob_def
      CONFIG_def mounted_widget_def Let_def)

theorem live_refresh_single_flight_witness:
  "refreshLiveWinProbability_enter plain_runtime CONFIG \<lparr>withLoader = False, clearError = False\<rparr>
     (refreshLiveWinProbability_enter plain_runtime CONFIG \<lparr>withLoader = False, clearError = False\<rparr>
        \<lparr>page = mounted_widget, in_flight = []\<rparr>) =
   refreshLiveWinProbability_enter plain_runtime CONFIG \<lparr>withLoader = False, clearError = False\<rparr>
     \<lparr>page = mounted_widget, in_flight = []\<rparr> \<and>
   length (requests_in_flight
     (run plain_runtime CONFIG
        [Tick \<lparr>withLoader = False, clearError = False\<rparr>,
         Tick \<lparr>withLoader = False, clearError = False\<rparr>,
         Settle 0 (Inr (JObj [(''dynamic_win_probability'', JNum (Finite 0.62))])),
         Tick \<lparr>withLoader = False, clearError = False\<rparr>,
         Tick \<lparr>withLoader = False, clearError = False\<rparr>]
        \<lparr>page = mounted_widget, in_flight = []\<rparr>)) \<le> 1"
proof -
  have start: "\<not> isLiveWinprobRefreshing (page \<lparr>page = mounted_widget, in_flight = []\<rparr>) \<and>
      in_flight \<lparr>page = mounted_widget, in_flight = []\<rparr> = []"
    by (simp add: mounted_widget_def)
  from live_refresh_single_flight
         [of "refreshLiveWinProbability_enter plain_runtime CONFIG
                \<lparr>withLoader = False, clearError = False\<rparr> \<lparr>page = mounted_widget, in_flight = []\<rparr>"
             plain_runtime CONFIG "\<lparr>withLoader = False, clearError = False\<rparr>"]
       live_refresh_single_flight
         [of "\<lparr>page = mounted_widget, in_flight = []\<rparr>" plain_runtime CONFIG _
             "[Tick \<lparr>withLoader = False, clearError = False\<rparr>,
               Tick \<lparr>withLoader = False, clearError = False\<rparr>,
               Settle 0 (Inr (JObj [(''dynamic_win_probability'', JNum (Finite 0.62))])),
               Tick \<lparr>withLoader = False, clearError = False\<rparr>,
               Tick \<lparr>withLoader = False, clearError = False\<rparr>]"]
       first_tick_sets_flag start
  show ?thesis
    by blast
qed

subsection \<open>Rounding to doubles\<close>

text \<open>
  The binade found by \<open>binade\<close> is the one that holds \<open>x\<close>, which gives \<open>round_double\<close>
  as a rounded multiple of the spacing of a known binade.
\<close>

lemma pow2_powr: "pow2 k = 2 powr (of_int k)"
proof (cases "0 \<le> k")
  case True
  then have "2 powr (of_int k) = (2::real) powr (real (nat k))"
    by simp
  also have "\<dots> = 2 ^ nat k"
    by (simp add: powr_realpow)
  finally show ?thesis
    using True by (simp add: pow2_def)
next
  case False
  then have "(2::real) powr (of_int k) = 2 powr (- real (nat (- k)))"
    by simp
  also have "\<dots> = 1 / 2 ^ nat (- k)"
    by (simp only: powr_minus powr_realpow) (simp add: powr_realpow field_simps)
  finally show ?thesis
    using False by (simp add: pow2_def)
qed

lemma pow2_pos: "0 < pow2 k"
  by (simp add: pow2_powr)

lemma pow2_mono: "j \<le> k \<Longrightarrow> pow2 j \<le> pow2 k"
  by (simp add: pow2_powr)

lemma pow2_less_iff: "pow2 j < pow2 k \<longleftrightarrow> j < k"
  by (simp add: pow2_powr)

lemma binade_above_eq:
  assumes "k0 \<le> k" and "k \<le> k0 + int n" and "pow2 k \<le> a" and "a < pow2 (k + 1)"
  shows "binade_above n k0 a = k"
  using assms
proof (induction n arbitrary: k0)
  case 0
  then show ?case
    by simp
next
  case (Suc n)
  show ?case
  proof (cases "a < pow2 (k0 + 1)")
    case True
    with Suc.prems(3) have "pow2 k < pow2 (k0 + 1)"
      by linarith
    then have "k = k0"
      using Suc.prems(1) by (simp add: pow2_less_iff)
    with True show ?thesis
      by simp
  next
    case False
    with Suc.prems(4) have "pow2 (k0 + 1) < pow2 (k + 1)"
      by linarith
    then have "k0 + 1 \<le> k"
      by (simp add: pow2_less_iff)
    from Suc.IH [OF this _ Suc.prems(3,4)] Suc.prems(2) False show ?thesis
      by simp
  qed
qed

lemma binade_above_low: "binade_above n k0 a = k0 \<or> pow2 (binade_above n k0 a) \<le> a"
proof (induction n arbitrary: k0)
  case 0
  then show ?case
    by simp
next
  case (Suc n)
  show ?case
  proof (cases "a < pow2 (k0 + 1)")
    case True
    then show ?thesis
      by simp
  next
    case False
    with Suc.IH [of "k0 + 1"] show ?thesis
      by auto
  qed
qed

lemma binade_eq:
  assumes "pow2 k \<le> \<bar>x\<bar>" and "\<bar>x\<bar> < pow2 (k + 1)" and "- 1022 \<le> k" and "k \<le> 1024"
  shows "binade x = k"
  unfolding binade_def
  using assms by (intro binade_above_eq) simp_all

lemma round_double_eval:
  assumes "pow2 k \<le> \<bar>x\<bar>" and "\<bar>x\<bar> < pow2 (k + 1)" and "- 1022 \<le> k" and "k \<le> 1024"
  shows "round_double x = of_int (round_half_even (x / pow2 (k - 52))) * pow2 (k - 52)"
proof -
  have "x \<noteq> 0"
    using assms(1) pow2_pos [of k] by auto
  then show ?thesis
    by (simp add: round_double_def binade_eq [OF assms])
qed

text \<open>
  Rounding moves a value by at most half the spacing of its binade, which is below the
  larger of its magnitude and 1: no operation on percentages overflows.
\<close>

lemma round_half_even_near: "\<bar>of_int (round_half_even q) - q\<bar> \<le> 1 / 2"
  unfolding round_half_even_def Let_def by (auto; linarith)

lemma ulp_le: "pow2 (binade x - 52) \<le> max \<bar>x\<bar> 1"
proof -
  from binade_above_low [of 2046 "- 1022" "\<bar>x\<bar>"]
  consider "binade x = - 1022" | "pow2 (binade x) \<le> \<bar>x\<bar>"
    by (auto simp: binade_def)
  then show ?thesis
  proof cases
    case 1
    have "pow2 (- 1022 - 52) \<le> pow2 0"
      by (rule pow2_mono) simp
    then show ?thesis
      by (simp add: 1 pow2_def)
  next
    case 2
    have "pow2 (binade x - 52) \<le> pow2 (binade x)"
      by (rule pow2_mono) simp
    with 2 show ?thesis
      by simp
  qed
qed

lemma round_double_near: "\<bar>round_double x - x\<bar> \<le> max \<bar>x\<bar> 1 / 2"
proof (cases "x = 0")
  case True
  then show ?thesis
    by (simp add: round_double_def)
next
  case False
  define u where "u = pow2 (binade x - 52)"
  have u: "0 < u" "u \<le> max \<bar>x\<bar> 1"
    using pow2_pos ulp_le [of x] by (simp_all add: u_def)
  have "round_double x - x = (of_int (round_half_even (x / u)) - x / u) * u"
    using False u(1) by (simp add: round_double_def u_def field_simps)
  then have "\<bar>round_double x - x\<bar> = \<bar>of_int (round_half_even (x / u)) - x / u\<bar> * u"
    using u(1) by (simp add: abs_mult)
  also have "\<dots> \<le> 1 / 2 * u"
    using round_half_even_near [of "x / u"] u(1) by (intro mult_right_mono) simp_all
  also have "\<dots> \<le> max \<bar>x\<bar> 1 / 2"
    using u(2) by simp
  finally show ?thesis .
qed

lemma to_double_finite:
  assumes "\<bar>x\<bar> \<le> 100"
  shows "to_double x = Finite (round_double x)"
proof -
  have "\<bar>round_double x\<bar> \<le> \<bar>x\<bar> + max \<bar>x\<bar> 1 / 2"
    using round_double_near [of x] by linarith
  also have "\<dots> \<le> 150"
    using assms by simp
  also have "\<dots> < (2::real) ^ 1024"
    by simp
  finally have "\<bar>round_double x\<bar> < 2 ^ 1024" .
  then show ?thesis
    by (simp add: to_double_def Let_def abs_less_iff not_le)
qed

lemma to_double_finite_big:
  assumes "\<bar>x\<bar> \<le> 2 ^ 1022"
  shows "to_double x = Finite (round_double x)"
proof -
  have "(1::real) \<le> 2 ^ 1022"
    by simp
  then have "max \<bar>x\<bar> 1 \<le> 2 ^ 1022"
    using assms by simp
  then have "\<bar>round_double x\<bar> \<le> 2 ^ 1022 + 2 ^ 1022 / 2"
    using round_double_near [of x] assms by linarith
  also have "\<dots> < (2::real) ^ 1024"
    by simp
  finally have "\<bar>round_double x\<bar> < 2 ^ 1024" .
  then show ?thesis
    by (simp add: to_double_def Let_def abs_less_iff not_le)
qed

lemma scale_probability_double_Finite:
  "scale_probability_double (Finite p) =
     Finite (if 1 < p \<and> p \<le> 100 then round_double (p / 100) else p)"
proof (cases "1 < p \<and> p \<le> 100")
  case True
  then have "\<bar>p / 100\<bar> \<le> 100"
    by simp
  then show ?thesis
    using True by (simp add: scale_probability_double_def to_double_finite)
next
  case False
  then show ?thesis
    by (auto simp: scale_probability_double_def)
qed

text \<open>
  The percentage shown is within 150, so that its difference with a retained sample of
  magnitude up to \<open>2\<^sup>1\<^sup>0\<^sup>2\<^sup>1\<close> is a finite double.
\<close>

lemma percentage_bound: "\<bar>round_double (max 0 (min 1 p) * 100)\<bar> \<le> 150"
proof -
  define x where "x = max 0 (min 1 p) * 100"
  have x: "0 \<le> x" "x \<le> 100"
    by (simp_all add: x_def)
  then have "max \<bar>x\<bar> 1 / 2 \<le> 50"
    by simp
  with round_double_near [of x] x show ?thesis
    unfolding x_def [symmetric] by linarith
qed

lemma live_delta_finite:
  assumes "\<bar>previous_pct\<bar> \<le> 2 ^ 1021"
  shows "to_double (round_double (max 0 (min 1 p) * 100) - previous_pct) =
         Finite (round_double (round_double (max 0 (min 1 p) * 100) - previous_pct))"
proof (rule to_double_finite_big)
  have "(150::real) \<le> 2 ^ 1021"
    by simp
  with percentage_bound [of p] assms
  have "\<bar>round_double (max 0 (min 1 p) * 100) - previous_pct\<bar> \<le> 2 ^ 1021 + 2 ^ 1021"
    by linarith
  then show "\<bar>round_double (max 0 (min 1 p) * 100) - previous_pct\<bar> \<le> 2 ^ 1022"
    by simp
qed

text \<open>
  The doubles of the examples below: the literal \<^verbatim>\<open>0.05\<close>; 16.05, 49.9 and 0.7005 as
  payload values, their quotient by 100, the percentage, and its difference with a retained
  sample; 0.0005, whose percentage is the double \<^verbatim>\<open>0.05\<close> itself.
\<close>

lemma double_0_05: "round_double (0.05) = 3602879701896397 / 2 ^ 56"
  by (subst round_double_eval [where k = "- 5"]) (simp_all add: pow2_def round_half_even_def)

lemma double_16_05: "round_double (16.05) = 4517673376206029 / 2 ^ 48"
  by (subst round_double_eval [where k = 4]) (simp_all add: pow2_def round_half_even_def)

lemma quotient_16_05: "round_double (4517673376206029 / 2 ^ 48 / 100) = 5782621921543717 / 2 ^ 55"
  by (subst round_double_eval [where k = "- 3"]) (simp_all add: pow2_def round_half_even_def)

lemma product_16_05: "round_double (5782621921543717 / 2 ^ 55 * 100) = 4517673376206029 / 2 ^ 48"
  by (subst round_double_eval [where k = 4]) (simp_all add: pow2_def round_half_even_def)

lemma delta_16_05: "round_double (4517673376206029 / 2 ^ 48 - 16) = 14073748835533 / 2 ^ 48"
  by (subst round_double_eval [where k = "- 5"]) (simp_all add: pow2_def round_half_even_def)

lemma double_0_7005: "round_double (0.7005) = 6309543077946065 / 2 ^ 53"
  by (subst round_double_eval [where k = "- 1"]) (simp_all add: pow2_def round_half_even_def)

lemma product_0_7005: "round_double (6309543077946065 / 2 ^ 53 * 100) = 4929330529645363 / 2 ^ 46"
  by (subst round_double_eval [where k = 6]) (simp_all add: pow2_def round_half_even_def)

lemma delta_0_7005: "round_double (4929330529645363 / 2 ^ 46 - 70) = 3518437208883 / 2 ^ 46"
  by (subst round_double_eval [where k = "- 5"]) (simp_all add: pow2_def round_half_even_def)

lemma double_49_9: "round_double (49.9) = 7022800668930867 / 2 ^ 47"
  by (subst round_double_eval [where k = 5]) (simp_all add: pow2_def round_half_even_def)

lemma quotient_49_9: "round_double (7022800668930867 / 2 ^ 47 / 100) = 4494592428115755 / 2 ^ 53"
  by (subst round_double_eval [where k = "- 2"]) (simp_all add: pow2_def round_half_even_def)

lemma product_49_9: "round_double (4494592428115755 / 2 ^ 53 * 100) = 7022800668930867 / 2 ^ 47"
  by (subst round_double_eval [where k = 5]) (simp_all add: pow2_def round_half_even_def)

lemma delta_49_9: "round_double (7022800668930867 / 2 ^ 47 - 50) = - (14073748835533 / 2 ^ 47)"
  by (subst round_double_eval [where k = "- 4"]) (simp_all add: pow2_def round_half_even_def)

lemma product_0_5: "round_double ((1 / 2) * 100) = 50"
  by (subst round_double_eval [where k = 5]) (simp_all add: pow2_def round_half_even_def)


lemma double_0_0005: "round_double (0.0005) = 1152921504606847 / 2 ^ 61"
  by (subst round_double_eval [where k = "- 11"]) (simp_all add: pow2_def round_half_even_def)

lemma product_0_0005: "round_double (1152921504606847 / 2 ^ 61 * 100) = 3602879701896397 / 2 ^ 56"
  by (subst round_double_eval [where k = "- 5"]) (simp_all add: pow2_def round_half_even_def)

lemma delta_0_0005: "round_double (3602879701896397 / 2 ^ 56 - 0) = 3602879701896397 / 2 ^ 56"
  by (subst round_double_eval [where k = "- 5"]) (simp_all add: pow2_def round_half_even_def)

lemma delta_0: "round_double (0 - 3602879701896397 / 2 ^ 56) = - (3602879701896397 / 2 ^ 56)"
  by (subst round_double_eval [where k = "- 5"]) (simp_all add: pow2_def round_half_even_def)

lemma double_0: "round_double 0 = 0"
  by (simp add: round_double_def)

lemma product_0: "round_double (0 * 100) = 0"
  by (simp add: round_double_def)

lemma double_0_5: "round_double 0.5 = 1 / 2"
  by (subst round_double_eval [where k = "- 1"]) (simp_all add: pow2_def round_half_even_def)

subsection \<open>What a tick shows\<close>

text \<open>
  The live badge after \<^verbatim>\<open>renderLiveWinProbability\<close>, on a payload flagged
  \<^verbatim>\<open>no_active_match\<close> and on a payload with a finite probability.
\<close>

lemma settle_live_view:
  "live_view (snd (fetchLiveWinProbability_settle rt cfg outcome w)) = live_view w"
  by (simp add: fetchLiveWinProbability_settle_def live_view_def Let_def split: sum.splits)

lemma clear_live_view:
  "live_view (clearLiveWinprobDelta w) =
     (liveWinprobBadge w,
      map_option (\<lambda>v. v\<lparr>has_delta := False, data_delta := None, data_delta_dir := None\<rparr>)
        (liveWinprobValue w),
      liveWinprobMeta w, lastLiveWinprobPct w)"
  by (simp add: clearLiveWinprobDelta_def live_view_def split: option.splits)

lemma render_flagged_view:
  assumes "liveWinprobBadge w \<noteq> None" and "liveWinprobValue w = Some v"
    and "liveWinprobMeta w \<noteq> None"
    and "get_prop payload ''no_active_match'' = JBool True"
  shows "live_view (renderLiveWinProbability rt payload w) =
           (Some ''#888888'',
            Some \<lparr>live_text = NoValue, has_delta = False, data_delta = None, data_delta_dir = None\<rparr>,
            Some ''Aucune partie en cours'', NaN)"
proof -
  from assms(1,3) obtain b m where "liveWinprobBadge w = Some b" "liveWinprobMeta w = Some m"
    by blast
  then show ?thesis
    using assms(2,4)
    by (cases v)
       (simp add: renderLiveWinProbability_def set_live_text_def clearLiveWinprobDelta_def
         live_view_def)
qed

lemma applyLiveWinprobDelta_live_view:
  assumes "liveWinprobValue u = Some x"
  shows "live_view (applyLiveWinprobDelta deltaPct hasPrevious u) =
           (liveWinprobBadge u,
            Some (case deltaPct of
                    Finite d \<Rightarrow>
                      if hasPrevious then
                        x\<lparr>data_delta :=
                            Some (if d > round_double 0.05 then TriangleUp
                                  else if d < - round_double 0.05 then TriangleDown
                                  else Bullet, \<bar>d\<bar>),
                          data_delta_dir :=
                            Some (if d > round_double 0.05 then ''up''
                                  else if d < - round_double 0.05 then ''down''
                                  else ''flat''),
                          has_delta := True\<rparr>
                      else x\<lparr>has_delta := False, data_delta := None, data_delta_dir := None\<rparr>
                  | _ \<Rightarrow> x\<lparr>has_delta := False, data_delta := None, data_delta_dir := None\<rparr>),
            liveWinprobMeta u, lastLiveWinprobPct u)"
  using assms
  by (cases deltaPct)
     (simp_all add: applyLiveWinprobDelta_def clearLiveWinprobDelta_def live_view_def Let_def)

lemma render_sample_view:
  assumes "liveWinprobBadge w \<noteq> None" and "liveWinprobValue w = Some v"
    and "liveWinprobMeta w \<noteq> None"
    and "get_prop payload ''no_active_match'' \<noteq> JBool True"
    and "scale_probability_double (firstFiniteNumber rt (live_winprob_fields payload)) =
           Finite probability"
    and "pct = round_double (max 0 (min 1 probability) * 100)"
  shows "renderLiveWinProbability rt payload w =
           (applyLiveWinprobDelta
              (case lastLiveWinprobPct w of Finite prev \<Rightarrow> to_double (pct - prev) | _ \<Rightarrow> NaN)
              (isFinite (lastLiveWinprobPct w))
              (w\<lparr>liveWinprobBadge := Some (getWinprobColor rt (JNum (Finite pct))),
                 liveWinprobValue := Some (v\<lparr>live_text := Percent pct\<rparr>)\<rparr>))
             \<lparr>liveWinprobMeta := Some [], lastLiveWinprobPct := Finite pct\<rparr>"
proof -
  from assms(1,3) obtain b m where "liveWinprobBadge w = Some b" "liveWinprobMeta w = Some m"
    by blast
  moreover have "asFiniteNumber rt (JNum (lastLiveWinprobPct w)) =
      (case lastLiveWinprobPct w of Finite prev \<Rightarrow> Finite prev | _ \<Rightarrow> NaN)"
    by (cases "lastLiveWinprobPct w") (simp_all add: asFiniteNumber_def)
  ultimately show ?thesis
    using assms(2,4,5,6)
    by (cases "lastLiveWinprobPct w")
       (simp_all add: renderLiveWinProbability_def set_live_text_def Let_def)
qed

lemma render_sample_live_view:
  assumes "liveWinprobBadge w \<noteq> None" and "liveWinprobValue w = Some v"
    and "liveWinprobMeta w \<noteq> None"
    and "get_prop payload ''no_active_match'' \<noteq> JBool True"
    and "scale_probability_double (firstFiniteNumber rt (live_winprob_fields payload)) =
           Finite probability"
    and "pct = round_double (max 0 (min 1 probability) * 100)"
  shows "live_view (renderLiveWinProbability rt payload w) =
           (Some (getWinprobColor rt (JNum (Finite pct))),
            Some (case lastLiveWinprobPct w of
                    Finite prev \<Rightarrow>
                      (case to_double (pct - prev) of
                         Finite d \<Rightarrow>
                           \<lparr>live_text = Percent pct, has_delta = True,
                            data_delta =
                              Some (if d > round_double 0.05 then TriangleUp
                                    else if d < - round_double 0.05 then TriangleDown
                                    else Bullet, \<bar>d\<bar>),
                            data_delta_dir =
                              Some (if d > round_double 0.05 then ''up''
                                    else if d < - round_double 0.05 then ''down''
                                    else ''flat'')\<rparr>
                       | _ \<Rightarrow>
                           \<lparr>live_text = Percent pct, has_delta = False, data_delta = None,
                            data_delta_dir = None\<rparr>)
                  | _ \<Rightarrow>
                      \<lparr>live_text = Percent pct, has_delta = False, data_delta = None,
                       data_delta_dir = None\<rparr>),
            Some [], Finite pct)"
proof -
  have view: "live_view (u\<lparr>liveWinprobMeta := Some [], lastLiveWinprobPct := Finite pct\<rparr>) =
      (fst (live_view u), fst (snd (live_view u)), Some [], Finite pct)" for u
    by (simp add: live_view_def)
  have el: "liveWinprobValue
      (w\<lparr>liveWinprobBadge := Some (getWinprobColor rt (JNum (Finite pct))),
         liveWinprobValue := Some (v\<lparr>live_text := Percent pct\<rparr>)\<rparr>) =
      Some (v\<lparr>live_text := Percent pct\<rparr>)"
    by simp
  show ?thesis
    unfolding render_sample_view [OF assms] view applyLiveWinprobDelta_live_view [OF el]
    by (cases v; cases "lastLiveWinprobPct w")
       (simp_all split: number.splits)
qed

lemma render_live_view_cong:
  assumes "live_view w1 = live_view w"
  shows "live_view (renderLiveWinProbability rt payload w1) =
         live_view (renderLiveWinProbability rt payload w)"
proof -
  from assms have eq: "liveWinprobBadge w1 = liveWinprobBadge w"
    "liveWinprobValue w1 = liveWinprobValue w" "liveWinprobMeta w1 = liveWinprobMeta w"
    "lastLiveWinprobPct w1 = lastLiveWinprobPct w"
    by (simp_all add: live_view_def)
  show ?thesis
  proof (cases "liveWinprobBadge w = None \<or> liveWinprobValue w = None \<or> liveWinprobMeta w = None")
    case True
    then show ?thesis
      using eq assms by (simp add: renderLiveWinProbability_def)
  next
    case False
    then obtain v where el: "liveWinprobBadge w \<noteq> None" "liveWinprobValue w = Some v"
      "liveWinprobMeta w \<noteq> None"
      by auto
    then have el1: "liveWinprobBadge w1 \<noteq> None" "liveWinprobValue w1 = Some v"
      "liveWinprobMeta w1 \<noteq> None"
      by (simp_all add: eq)
    show ?thesis
    proof (cases "get_prop payload ''no_active_match'' = JBool True")
      case True
      then show ?thesis
        by (simp add: render_flagged_view [OF el] render_flagged_view [OF el1])
    next
      case flagged: False
      show ?thesis
      proof (cases "scale_probability_double (firstFiniteNumber rt (live_winprob_fields payload))")
        case (Finite p)
        show ?thesis
          by (simp add: render_sample_live_view [OF el flagged Finite refl]
              render_sample_live_view [OF el1 flagged Finite refl] eq)
      next
        case NaN
        then show ?thesis
          using el el1 flagged eq
          by (cases v)
             (auto simp: renderLiveWinProbability_def set_live_text_def clearLiveWinprobDelta_def
               live_view_def)
      next
        case PosInfinity
        then show ?thesis
          using el el1 flagged eq
          by (cases v)
             (auto simp: renderLiveWinProbability_def set_live_text_def clearLiveWinprobDelta_def
               live_view_def)
      next
        case NegInfinity
        then show ?thesis
          using el el1 flagged eq
          by (cases v)
             (auto simp: renderLiveWinProbability_def set_live_text_def clearLiveWinprobDelta_def
               live_view_def)
      qed
    qed
  qed
qed

text \<open>
  The live badge after a tick has settled: \<^verbatim>\<open>fetchLiveWinProbability\<close> leaves it as it is,
  \<^verbatim>\<open>refreshLiveWinProbability\<close> renders what was returned, or the flagged payload when
  the error thrown is one of no active match, and the \<^verbatim>\<open>finally\<close> block does not touch
  it.
\<close>

lemma live_view_setSectionLoading [simp]: "live_view (setSectionLoading b w) = live_view w"
  by (simp add: setSectionLoading_def live_view_def split: option.splits)

lemma live_view_setSectionError [simp]: "live_view (setSectionError m w) = live_view w"
  by (simp add: setSectionError_def live_view_def split: option.splits)

lemma live_view_flag [simp]: "live_view (w\<lparr>isLiveWinprobRefreshing := b\<rparr>) = live_view w"
  by (simp add: live_view_def)

lemma fetched_live_view:
  "live_view (snd (case awaited call of
                     Inl e \<Rightarrow> (Inl e, w)
                   | Inr req \<Rightarrow> fetchLiveWinProbability_settle rt cfg outcome w)) = live_view w"
  by (simp add: settle_live_view split: sum.splits)

lemma resume_live_view_returned:
  assumes "fetchLiveWinProbability_outcome rt cfg call outcome w = Inr payload"
  shows "live_view (refreshLiveWinProbability_resume rt cfg call outcome w) =
         live_view (renderLiveWinProbability rt payload w)"
proof -
  obtain result w1 where f: "(case awaited call of
                     Inl e \<Rightarrow> (Inl e, w)
                   | Inr req \<Rightarrow> fetchLiveWinProbability_settle rt cfg outcome w) = (result, w1)"
    by (cases "case awaited call of
                     Inl e \<Rightarrow> (Inl e, w)
                   | Inr req \<Rightarrow> fetchLiveWinProbability_settle rt cfg outcome w") auto
  with assms have r: "result = Inr payload"
    by (simp add: fetchLiveWinProbability_outcome_def)
  from f fetched_live_view [where call = call and w = w and rt = rt and cfg = cfg and outcome = outcome] have "live_view w1 = live_view w"
    by simp
  then have "live_view (renderLiveWinProbability rt payload w1) =
      live_view (renderLiveWinProbability rt payload w)"
    by (rule render_live_view_cong)
  then show ?thesis
    by (simp add: refreshLiveWinProbability_resume_def f r Let_def)
qed

lemma resume_live_view_thrown:
  assumes "fetchLiveWinProbability_outcome rt cfg call outcome w = Inl error"
    and "isNoActiveMatchError rt error"
  shows "live_view (refreshLiveWinProbability_resume rt cfg call outcome w) =
         live_view (renderLiveWinProbability rt (JObj [(''no_active_match'', JBool True)]) w)"
proof -
  obtain result w1 where f: "(case awaited call of
                     Inl e \<Rightarrow> (Inl e, w)
                   | Inr req \<Rightarrow> fetchLiveWinProbability_settle rt cfg outcome w) = (result, w1)"
    by (cases "case awaited call of
                     Inl e \<Rightarrow> (Inl e, w)
                   | Inr req \<Rightarrow> fetchLiveWinProbability_settle rt cfg outcome w") auto
  with assms have r: "result = Inl error"
    by (simp add: fetchLiveWinProbability_outcome_def)
  from f fetched_live_view [where call = call and w = w and rt = rt and cfg = cfg and outcome = outcome] have "live_view w1 = live_view w"
    by simp
  then have "live_view (renderLiveWinProbability rt (JObj [(''no_active_match'', JBool True)]) w1) =
      live_view (renderLiveWinProbability rt (JObj [(''no_active_match'', JBool True)]) w)"
    by (rule render_live_view_cong)
  then show ?thesis
    using assms(2) by (simp add: refreshLiveWinProbability_resume_def f r Let_def)
qed

lemma settle_page:
  "i < length (in_flight s) \<Longrightarrow>
   page (step rt cfg (Settle i outcome) s) =
     refreshLiveWinProbability_resume rt cfg (in_flight s ! i) outcome (page s)"
  by simp

lemma tick_no_active_match_view:
  assumes "i < length (in_flight s)"
    and "liveWinprobBadge (page s) \<noteq> None" and "liveWinprobValue (page s) \<noteq> None"
    and "liveWinprobMeta (page s) \<noteq> None"
    and "reports_no_active_match rt
           (fetchLiveWinProbability_outcome rt cfg (in_flight s ! i) outcome (page s))"
  shows "live_view (page (step rt cfg (Settle i outcome) s)) =
           (Some ''#888888'',
            Some \<lparr>live_text = NoValue, has_delta = False, data_delta = None, data_delta_dir = None\<rparr>,
            Some ''Aucune partie en cours'', NaN)"
proof -
  from assms(3) obtain v where v: "liveWinprobValue (page s) = Some v"
    by blast
  show ?thesis
  proof (cases "fetchLiveWinProbability_outcome rt cfg (in_flight s ! i) outcome (page s)")
    case (Inr payload)
    with assms(5) have "get_prop payload ''no_active_match'' = JBool True"
      by (simp add: reports_no_active_match_def)
    from render_flagged_view [OF assms(2) v assms(4) this] show ?thesis
      by (simp only: settle_page [OF assms(1)] resume_live_view_returned [OF Inr])
  next
    case (Inl error)
    with assms(5) have e: "isNoActiveMatchError rt error"
      by (simp add: reports_no_active_match_def)
    have "get_prop (JObj [(''no_active_match'', JBool True)]) ''no_active_match'' = JBool True"
      by simp
    from render_flagged_view [OF assms(2) v assms(4) this] show ?thesis
      by (simp only: settle_page [OF assms(1)] resume_live_view_thrown [OF Inl e])
  qed
qed

lemma tick_sample_view:
  assumes "i < length (in_flight s)"
    and "liveWinprobBadge (page s) \<noteq> None" and "liveWinprobValue (page s) \<noteq> None"
    and "liveWinprobMeta (page s) \<noteq> None"
    and "fetchLiveWinProbability_outcome rt cfg (in_flight s ! i) outcome (page s) = Inr payload"
    and "get_prop payload ''no_active_match'' \<noteq> JBool True"
    and "scale_probability_double (firstFiniteNumber rt (live_winprob_fields payload)) =
           Finite probability"
    and "pct = round_double (max 0 (min 1 probability) * 100)"
  shows "live_view (page (step rt cfg (Settle i outcome) s)) =
           (Some (getWinprobColor rt (JNum (Finite pct))),
            Some (case lastLiveWinprobPct (page s) of
                    Finite prev \<Rightarrow>
                      (case to_double (pct - prev) of
                         Finite d \<Rightarrow>
                           \<lparr>live_text = Percent pct, has_delta = True,
                            data_delta =
                              Some (if d > round_double 0.05 then TriangleUp
                                    else if d < - round_double 0.05 then TriangleDown
                                    else Bullet, \<bar>d\<bar>),
                            data_delta_dir =
                              Some (if d > round_double 0.05 then ''up''
                                    else if d < - round_double 0.05 then ''down''
                                    else ''flat'')\<rparr>
                       | _ \<Rightarrow>
                           \<lparr>live_text = Percent pct, has_delta = False, data_delta = None,
                            data_delta_dir = None\<rparr>)
                  | _ \<Rightarrow>
                      \<lparr>live_text = Percent pct, has_delta = False, data_delta = None,
                       data_delta_dir = None\<rparr>),
            Some [], Finite pct)"
proof -
  from assms(3) obtain v where v: "liveWinprobValue (page s) = Some v"
    by blast
  from render_sample_live_view [OF assms(2) v assms(4) assms(6,7,8)] show ?thesis
    by (simp only: settle_page [OF assms(1)] resume_live_view_returned [OF assms(5)])
qed

lemma enter_live_view: "live_view (page (step rt cfg (Tick opts) s)) = live_view (page s)"
  by (simp add: refreshLiveWinProbability_enter_def Let_def)

text \<open>
  What \<^verbatim>\<open>fetchLiveWinProbability\<close> hands to the tick, by what \<^verbatim>\<open>fetchJson\<close> returned or
  threw. A reply flagged \<^verbatim>\<open>no_active_match\<close> but with \<^verbatim>\<open>ok: false\<close> and none of the
  phrases is thrown as an error like any other failure: no flagged payload reaches the
  tick then.
\<close>

lemma returned_payload_outcome:
  assumes "awaited call = Inr req" and "isPlainObject payload"
    and "get_prop payload ''ok'' \<noteq> JBool False"
  shows "fetchLiveWinProbability_outcome rt cfg call (Inr payload) w = Inr payload"
  using assms
  by (simp add: fetchLiveWinProbability_outcome_def fetchLiveWinProbability_settle_def Let_def)

lemma thrown_phrase_outcome:
  assumes "awaited call = Inr req" and "isNoActiveMatchError rt error"
  shows "reports_no_active_match rt (fetchLiveWinProbability_outcome rt cfg call (Inl error) w)"
  using assms
  by (simp add: fetchLiveWinProbability_outcome_def fetchLiveWinProbability_settle_def
      reports_no_active_match_def)

lemma not_ok_phrase_outcome:
  assumes "awaited call = Inr req" and "isPlainObject payload"
    and "get_prop payload ''ok'' = JBool False" and "isNoActiveMatchPayload rt payload"
  shows "reports_no_active_match rt (fetchLiveWinProbability_outcome rt cfg call (Inr payload) w)"
  using assms
  by (cases payload)
     (simp_all add: fetchLiveWinProbability_outcome_def fetchLiveWinProbability_settle_def
       reports_no_active_match_def map_of_obj_update)

lemma flagged_payload_outcome:
  assumes "awaited call = Inr req" and "isPlainObject payload"
    and "get_prop payload ''ok'' \<noteq> JBool False"
    and "get_prop payload ''no_active_match'' = JBool True"
  shows "reports_no_active_match rt (fetchLiveWinProbability_outcome rt cfg call (Inr payload) w)"
  using assms
  by (simp add: returned_payload_outcome reports_no_active_match_def)

lemma early_phrase_outcome:
  assumes "awaited call = Inl error" and "isNoActiveMatchError rt error"
  shows "reports_no_active_match rt (fetchLiveWinProbability_outcome rt cfg call outcome w)"
  using assms
  by (simp add: fetchLiveWinProbability_outcome_def reports_no_active_match_def)

lemma flagged_not_ok_payload_is_an_error:
  "fetchLiveWinProbability_outcome plain_runtime CONFIG
     \<lparr>options = timer_options, awaited = Inr live_request\<rparr>
     (Inr (JObj [(''ok'', JBool False), (''no_active_match'', JBool True),
                 (''error'', JStr ''Calcul impossible'')]))
     w = Inl (Error ''Calcul impossible'')"
  by (simp add: fetchLiveWinProbability_outcome_def fetchLiveWinProbability_settle_def
      isNoActiveMatchPayload_def or_val_def text_eval)

text \<open>
  The timer's tick on the idle session, and the payloads of the examples.
\<close>

lemma tick_on_idle_session:
  "step plain_runtime CONFIG (Tick timer_options) (idle_session previous) = waiting_session previous"
  by (simp add: refreshLiveWinProbability_enter_def shouldShowWinprob_def shouldShowLiveWinprob_def
      CONFIG_def mounted_widget_def idle_session_def waiting_session_def timer_options_def
      live_request_def fetchLiveWinProbability_request_def plain_runtime_def
      getEffectiveMatchId_def or_else_def ensureTrailingSlash_def trim_def is_ws_def
      asFiniteNumber_def Let_def suffix_to_prefix)

lemma waiting_session_facts:
  "0 < length (in_flight (waiting_session previous))"
  "in_flight (waiting_session previous) ! 0 = \<lparr>options = timer_options, awaited = Inr live_request\<rparr>"
  "liveWinprobBadge (page (waiting_session previous)) \<noteq> None"
  "liveWinprobValue (page (waiting_session previous)) \<noteq> None"
  "liveWinprobMeta (page (waiting_session previous)) \<noteq> None"
  "lastLiveWinprobPct (page (waiting_session previous)) = previous"
  by (simp_all add: waiting_session_def mounted_widget_def)

lemma run_one_tick:
  "run plain_runtime CONFIG [Tick timer_options, Settle 0 outcome] (idle_session previous) =
     step plain_runtime CONFIG (Settle 0 outcome) (waiting_session previous)"
  by (simp only: run_def fold_simps tick_on_idle_session)

lemma live_payload_facts:
  "isPlainObject (live_payload field x)"
  "get_prop (live_payload ''dynamic_win_probability'' x) ''ok'' \<noteq> JBool False"
  "get_prop (live_payload ''dynamic_win_probability_pct'' x) ''ok'' \<noteq> JBool False"
  "get_prop (live_payload ''dynamic_win_probability'' x) ''no_active_match'' \<noteq> JBool True"
  "get_prop (live_payload ''dynamic_win_probability_pct'' x) ''no_active_match'' \<noteq> JBool True"
  "firstFiniteNumber rt (live_winprob_fields (live_payload ''dynamic_win_probability'' x)) =
     Finite (round_double x)"
  "firstFiniteNumber rt (live_winprob_fields (live_payload ''dynamic_win_probability_pct'' x)) =
     Finite (round_double x)"
  by (simp_all add: live_payload_def live_winprob_fields_def asFiniteNumber_def Let_def)

lemma live_payload_outcome:
  "fetchLiveWinProbability_outcome rt cfg \<lparr>options = timer_options, awaited = Inr live_request\<rparr>
     (Inr (live_payload ''dynamic_win_probability'' x)) w =
     Inr (live_payload ''dynamic_win_probability'' x)"
  "fetchLiveWinProbability_outcome rt cfg \<lparr>options = timer_options, awaited = Inr live_request\<rparr>
     (Inr (live_payload ''dynamic_win_probability_pct'' x)) w =
     Inr (live_payload ''dynamic_win_probability_pct'' x)"
  by (simp_all add: returned_payload_outcome live_payload_facts)

lemma scaled_16_05:
  "scale_probability_double (firstFiniteNumber rt
     (live_winprob_fields (live_payload ''dynamic_win_probability_pct'' 16.05))) =
   Finite (5782621921543717 / 2 ^ 55)"
  by (simp only: live_payload_facts scale_probability_double_Finite double_16_05 quotient_16_05)
     simp

lemma scaled_49_9:
  "scale_probability_double (firstFiniteNumber rt
     (live_winprob_fields (live_payload ''dynamic_win_probability_pct'' 49.9))) =
   Finite (4494592428115755 / 2 ^ 53)"
  by (simp only: live_payload_facts scale_probability_double_Finite double_49_9 quotient_49_9)
     simp

lemma scaled_0_7005:
  "scale_probability_double (firstFiniteNumber rt
     (live_winprob_fields (live_payload ''dynamic_win_probability'' 0.7005))) =
   Finite (6309543077946065 / 2 ^ 53)"
  by (simp only: live_payload_facts scale_probability_double_Finite double_0_7005)
     simp

lemma scaled_0_0005:
  "scale_probability_double (firstFiniteNumber rt
     (live_winprob_fields (live_payload ''dynamic_win_probability'' 0.0005))) =
   Finite (1152921504606847 / 2 ^ 61)"
  by (simp only: live_payload_facts scale_probability_double_Finite double_0_0005)
     simp

lemma scaled_0:
  "scale_probability_double (firstFiniteNumber rt
     (live_winprob_fields (live_payload ''dynamic_win_probability'' 0))) =
   Finite 0"
  by (simp only: live_payload_facts scale_probability_double_Finite double_0)
     simp

lemma scaled_0_5:
  "scale_probability_double (firstFiniteNumber rt
     (live_winprob_fields (live_payload ''dynamic_win_probability'' 0.5))) =
   Finite (1 / 2)"
  by (simp only: live_payload_facts scale_probability_double_Finite double_0_5)
     simp

text \<open>
  The tick answered by a flagged payload that is not marked \<^verbatim>\<open>ok: false\<close>.
\<close>

lemma flagged_payload_tick:
  assumes "i < length (in_flight s)" and "awaited (in_flight s ! i) = Inr req"
    and "liveWinprobBadge (page s) \<noteq> None" and "liveWinprobValue (page s) \<noteq> None"
    and "liveWinprobMeta (page s) \<noteq> None"
    and "isPlainObject payload" and "get_prop payload ''ok'' \<noteq> JBool False"
    and "get_prop payload ''no_active_match'' = JBool True"
  shows "live_view (page (step rt cfg (Settle i (Inr payload)) s)) =
           (Some ''#888888'',
            Some \<lparr>live_text = NoValue, has_delta = False, data_delta = None, data_delta_dir = None\<rparr>,
            Some ''Aucune partie en cours'', NaN)"
  by (rule tick_no_active_match_view [OF assms(1,3,4,5)])
     (rule flagged_payload_outcome [OF assms(2,6,7,8)])

subsection \<open>The live delta\<close>

text \<open>
  Claim C5. Let a tick of the live refresh settle in a session whose live badge has its
  three elements, and let the payload that \<^verbatim>\<open>fetchLiveWinProbability\<close> returns to it be
  not flagged \<^verbatim>\<open>no_active_match\<close> and carry a finite probability; \<open>current_pct\<close> is
  the percentage shown, the double \<^verbatim>\<open>clamped * 100\<close>. The tick retains \<open>current_pct\<close> as
  the sample. When the sample retained before is a finite \<open>previous_pct\<close>, the delta is
  the double \<^verbatim>\<open>pct - previousPct\<close>, that is the rounded difference
  \<open>current_pct - previous_pct\<close>, and the value element is marked \<^verbatim>\<open>up\<close> when the delta
  exceeds the double \<^verbatim>\<open>0.05\<close>, \<^verbatim>\<open>down\<close> when it is below \<^verbatim>\<open>-0.05\<close>, \<^verbatim>\<open>flat\<close>
  otherwise, the two bounds included. When no sample is retained (the retained value is
  not finite), the delta attributes and the class \<^verbatim>\<open>has-delta\<close> are removed. The
  difference is a finite double for every retained sample up to \<open>2\<^sup>1\<^sup>0\<^sup>2\<^sup>1\<close> in
  magnitude (\<open>live_delta_finite\<close>).
\<close>

theorem live_tick_delta_classification:
  assumes "i < length (in_flight s)"
    and "liveWinprobBadge (page s) \<noteq> None" and "liveWinprobValue (page s) \<noteq> None"
    and "liveWinprobMeta (page s) \<noteq> None"
    and "fetchLiveWinProbability_outcome rt cfg (in_flight s ! i) outcome (page s) = Inr payload"
    and "get_prop payload ''no_active_match'' \<noteq> JBool True"
    and "scale_probability_double (firstFiniteNumber rt (live_winprob_fields payload)) =
           Finite probability"
    and "current_pct = round_double (max 0 (min 1 probability) * 100)"
    and "s' = step rt cfg (Settle i outcome) s"
  shows "lastLiveWinprobPct (page s') = Finite current_pct \<and>
         (lastLiveWinprobPct (page s) = Finite previous_pct \<and>
          to_double (current_pct - previous_pct) = Finite delta \<longrightarrow>
          liveWinprobValue (page s') =
            Some \<lparr>live_text = Percent current_pct, has_delta = True,
                  data_delta =
                    Some (if delta > round_double 0.05 then TriangleUp
                          else if delta < - round_double 0.05 then TriangleDown
                          else Bullet, \<bar>delta\<bar>),
                  data_delta_dir =
                    Some (if delta > round_double 0.05 then ''up''
                          else if delta < - round_double 0.05 then ''down''
                          else ''flat'')\<rparr>) \<and>
         (\<not> isFinite (lastLiveWinprobPct (page s)) \<longrightarrow>
          liveWinprobValue (page s') =
            Some \<lparr>live_text = Percent current_pct, has_delta = False, data_delta = None,
                  data_delta_dir = None\<rparr>)"
proof -
  note view = tick_sample_view [OF assms(1-8), unfolded live_view_def, folded assms(9)]
  from view have stored: "lastLiveWinprobPct (page s') = Finite current_pct"
    by simp
  have with_previous: "liveWinprobValue (page s') =
            Some \<lparr>live_text = Percent current_pct, has_delta = True,
                  data_delta =
                    Some (if delta > round_double 0.05 then TriangleUp
                          else if delta < - round_double 0.05 then TriangleDown
                          else Bullet, \<bar>delta\<bar>),
                  data_delta_dir =
                    Some (if delta > round_double 0.05 then ''up''
                          else if delta < - round_double 0.05 then ''down''
                          else ''flat'')\<rparr>"
    if "lastLiveWinprobPct (page s) = Finite previous_pct"
      and "to_double (current_pct - previous_pct) = Finite delta"
    using view that by simp
  have without_previous: "liveWinprobValue (page s') =
            Some \<lparr>live_text = Percent current_pct, has_delta = False, data_delta = None,
                  data_delta_dir = None\<rparr>"
    if "\<not> isFinite (lastLiveWinprobPct (page s))"
    using view that by (cases "lastLiveWinprobPct (page s)") simp_all
  from stored with_previous without_previous show ?thesis
    by blast
qed

text \<open>
  One tick of the timer on the idle page. After 16, the payload 16.05 (a percentage) has
  the delta 0.05000000000000071, above the double \<^verbatim>\<open>0.05\<close>: up. After 70, the payload
  0.7005 (a fraction, shown as 70.05) has the delta 0.04999999999999716: flat. After 50,
  the payload 49.9 is down. On the bounds: after 0, the payload 0.0005 has the double
  \<^verbatim>\<open>0.05\<close> as its delta, and after that sample the payload 0 has \<^verbatim>\<open>-0.05\<close>; both are
  flat. With no sample retained, 16.05 is shown without a delta.
\<close>

theorem live_tick_delta_classification_witness:
  "liveWinprobValue (page (run plain_runtime CONFIG
             [Tick timer_options, Settle 0 (Inr (live_payload ''dynamic_win_probability_pct'' 16.05))]
             (idle_session (Finite 16)))) =
        Some \<lparr>live_text = Percent (4517673376206029 / 2 ^ 48), has_delta = True,
              data_delta = Some (TriangleUp, 14073748835533 / 2 ^ 48), data_delta_dir = Some ''up''\<rparr> \<and>
   lastLiveWinprobPct (page (run plain_runtime CONFIG
             [Tick timer_options, Settle 0 (Inr (live_payload ''dynamic_win_probability_pct'' 16.05))]
             (idle_session (Finite 16)))) = Finite (4517673376206029 / 2 ^ 48) \<and>
   liveWinprobValue (page (run plain_runtime CONFIG
             [Tick timer_options, Settle 0 (Inr (live_payload ''dynamic_win_probability'' 0.7005))]
             (idle_session (Finite 70)))) =
        Some \<lparr>live_text = Percent (4929330529645363 / 2 ^ 46), has_delta = True,
              data_delta = Some (Bullet, 3518437208883 / 2 ^ 46), data_delta_dir = Some ''flat''\<rparr> \<and>
   liveWinprobValue (page (run plain_runtime CONFIG
             [Tick timer_options, Settle 0 (Inr (live_payload ''dynamic_win_probability_pct'' 49.9))]
             (idle_session (Finite 50)))) =
        Some \<lparr>live_text = Percent (7022800668930867 / 2 ^ 47), has_delta = True,
              data_delta = Some (TriangleDown, 14073748835533 / 2 ^ 47), data_delta_dir = Some ''down''\<rparr> \<and>
   liveWinprobValue (page (run plain_runtime CONFIG
             [Tick timer_options, Settle 0 (Inr (live_payload ''dynamic_win_probability'' 0.0005))]
             (idle_session (Finite 0)))) =
        Some \<lparr>live_text = Percent (3602879701896397 / 2 ^ 56), has_delta = True,
              data_delta = Some (Bullet, 3602879701896397 / 2 ^ 56), data_delta_dir = Some ''flat''\<rparr> \<and>
   liveWinprobValue (page (run plain_runtime CONFIG
             [Tick timer_options, Settle 0 (Inr (live_payload ''dynamic_win_probability'' 0))]
             (idle_session (Finite (3602879701896397 / 2 ^ 56))))) =
        Some \<lparr>live_text = Percent (0), has_delta = True,
              data_delta = Some (Bullet, 3602879701896397 / 2 ^ 56), data_delta_dir = Some ''flat''\<rparr> \<and>
   liveWinprobValue (page (run plain_runtime CONFIG
             [Tick timer_options, Settle 0 (Inr (live_payload ''dynamic_win_probability_pct'' 16.05))]
             (idle_session (NaN)))) =
        Some \<lparr>live_text = Percent (4517673376206029 / 2 ^ 48), has_delta = False, data_delta = None,
              data_delta_dir = None\<rparr>"
proof -
  have up_fetched: "fetchLiveWinProbability_outcome plain_runtime CONFIG
      (in_flight (waiting_session (Finite 16)) ! 0) (Inr (live_payload ''dynamic_win_probability_pct'' 16.05))
      (page (waiting_session (Finite 16))) = Inr (live_payload ''dynamic_win_probability_pct'' 16.05)"
    by (simp only: waiting_session_facts(2) live_payload_outcome)
  have up_clamped: "max 0 (min 1 (5782621921543717 / 2 ^ 55 :: real)) = 5782621921543717 / 2 ^ 55"
    by simp
  have up_pct: "(4517673376206029 / 2 ^ 48 :: real) = round_double (max 0 (min 1 (5782621921543717 / 2 ^ 55)) * 100)"
    by (simp only: up_clamped product_16_05)
  have "\<bar>4517673376206029 / 2 ^ 48 - 16\<bar> \<le> (100 :: real)"
    by simp
  then have up_delta: "to_double (4517673376206029 / 2 ^ 48 - 16) = Finite (14073748835533 / 2 ^ 48)"
    by (simp only: to_double_finite delta_16_05)
  note up_tick = live_tick_delta_classification
      [OF waiting_session_facts(1) waiting_session_facts(3,4,5) up_fetched live_payload_facts(5)
        scaled_16_05 up_pct refl,
        where previous_pct = "16" and delta = "14073748835533 / 2 ^ 48",
        unfolded double_0_05 run_one_tick [symmetric]]
  have up: "liveWinprobValue (page (run plain_runtime CONFIG
              [Tick timer_options, Settle 0 (Inr (live_payload ''dynamic_win_probability_pct'' 16.05))]
              (idle_session (Finite 16)))) =
         Some \<lparr>live_text = Percent (4517673376206029 / 2 ^ 48), has_delta = True,
               data_delta = Some (TriangleUp, 14073748835533 / 2 ^ 48), data_delta_dir = Some ''up''\<rparr>"
    and up_stored: "lastLiveWinprobPct (page (run plain_runtime CONFIG
              [Tick timer_options, Settle 0 (Inr (live_payload ''dynamic_win_probability_pct'' 16.05))]
              (idle_session (Finite 16)))) = Finite (4517673376206029 / 2 ^ 48)"
    using up_tick up_delta waiting_session_facts(6) [of "Finite 16"] by simp_all
  have flat_fetched: "fetchLiveWinProbability_outcome plain_runtime CONFIG
      (in_flight (waiting_session (Finite 70)) ! 0) (Inr (live_payload ''dynamic_win_probability'' 0.7005))
      (page (waiting_session (Finite 70))) = Inr (live_payload ''dynamic_win_probability'' 0.7005)"
    by (simp only: waiting_session_facts(2) live_payload_outcome)
  have flat_clamped: "max 0 (min 1 (6309543077946065 / 2 ^ 53 :: real)) = 6309543077946065 / 2 ^ 53"
    by simp
  have flat_pct: "(4929330529645363 / 2 ^ 46 :: real) = round_double (max 0 (min 1 (6309543077946065 / 2 ^ 53)) * 100)"
    by (simp only: flat_clamped product_0_7005)
  have "\<bar>4929330529645363 / 2 ^ 46 - 70\<bar> \<le> (100 :: real)"
    by simp
  then have flat_delta: "to_double (4929330529645363 / 2 ^ 46 - 70) = Finite (3518437208883 / 2 ^ 46)"
    by (simp only: to_double_finite delta_0_7005)
  note flat_tick = live_tick_delta_classification
      [OF waiting_session_facts(1) waiting_session_facts(3,4,5) flat_fetched live_payload_facts(4)
        scaled_0_7005 flat_pct refl,
        where previous_pct = "70" and delta = "3518437208883 / 2 ^ 46",
        unfolded double_0_05 run_one_tick [symmetric]]
  have flat: "liveWinprobValue (page (run plain_runtime CONFIG
              [Tick timer_options, Settle 0 (Inr (live_payload ''dynamic_win_probability'' 0.7005))]
              (idle_session (Finite 70)))) =
         Some \<lparr>live_text = Percent (4929330529645363 / 2 ^ 46), has_delta = True,
               data_delta = Some (Bullet, 3518437208883 / 2 ^ 46), data_delta_dir = Some ''flat''\<rparr>"
    and flat_stored: "lastLiveWinprobPct (page (run plain_runtime CONFIG
              [Tick timer_options, Settle 0 (Inr (live_payload ''dynamic_win_probability'' 0.7005))]
              (idle_session (Finite 70)))) = Finite (4929330529645363 / 2 ^ 46)"
    using flat_tick flat_delta waiting_session_facts(6) [of "Finite 70"] by simp_all
  have down_fetched: "fetchLiveWinProbability_outcome plain_runtime CONFIG
      (in_flight (waiting_session (Finite 50)) ! 0) (Inr (live_payload ''dynamic_win_probability_pct'' 49.9))
      (page (waiting_session (Finite 50))) = Inr (live_payload ''dynamic_win_probability_pct'' 49.9)"
    by (simp only: waiting_session_facts(2) live_payload_outcome)
  have down_clamped: "max 0 (min 1 (4494592428115755 / 2 ^ 53 :: real)) = 4494592428115755 / 2 ^ 53"
    by simp
  have down_pct: "(7022800668930867 / 2 ^ 47 :: real) = round_double (max 0 (min 1 (4494592428115755 / 2 ^ 53)) * 100)"
    by (simp only: down_clamped product_49_9)
  have "\<bar>7022800668930867 / 2 ^ 47 - 50\<bar> \<le> (100 :: real)"
    by simp
  then have down_delta: "to_double (7022800668930867 / 2 ^ 47 - 50) = Finite (- (14073748835533 / 2 ^ 47))"
    by (simp only: to_double_finite delta_49_9)
  note down_tick = live_tick_delta_classification
      [OF waiting_session_facts(1) waiting_session_facts(3,4,5) down_fetched live_payload_facts(5)
        scaled_49_9 down_pct refl,
        where previous_pct = "50" and delta = "- (14073748835533 / 2 ^ 47)",
        unfolded double_0_05 run_one_tick [symmetric]]
  have down: "liveWinprobValue (page (run plain_runtime CONFIG
              [Tick timer_options, Settle 0 (Inr (live_payload ''dynamic_win_probability_pct'' 49.9))]
              (idle_session (Finite 50)))) =
         Some \<lparr>live_text = Percent (7022800668930867 / 2 ^ 47), has_delta = True,
               data_delta = Some (TriangleDown, 14073748835533 / 2 ^ 47), data_delta_dir = Some ''down''\<rparr>"
    and down_stored: "lastLiveWinprobPct (page (run plain_runtime CONFIG
              [Tick timer_options, Settle 0 (Inr (live_payload ''dynamic_win_probability_pct'' 49.9))]
              (idle_session (Finite 50)))) = Finite (7022800668930867 / 2 ^ 47)"
    using down_tick down_delta waiting_session_facts(6) [of "Finite 50"] by simp_all
  have upper_bound_fetched: "fetchLiveWinProbability_outcome plain_runtime CONFIG
      (in_flight (waiting_session (Finite 0)) ! 0) (Inr (live_payload ''dynamic_win_probability'' 0.0005))
      (page (waiting_session (Finite 0))) = Inr (live_payload ''dynamic_win_probability'' 0.0005)"
    by (simp only: waiting_session_facts(2) live_payload_outcome)
  have upper_bound_clamped: "max 0 (min 1 (1152921504606847 / 2 ^ 61 :: real)) = 1152921504606847 / 2 ^ 61"
    by simp
  have upper_bound_pct: "(3602879701896397 / 2 ^ 56 :: real) = round_double (max 0 (min 1 (1152921504606847 / 2 ^ 61)) * 100)"
    by (simp only: upper_bound_clamped product_0_0005)
  have "\<bar>3602879701896397 / 2 ^ 56 - 0\<bar> \<le> (100 :: real)"
    by simp
  then have upper_bound_delta: "to_double (3602879701896397 / 2 ^ 56 - 0) = Finite (3602879701896397 / 2 ^ 56)"
    by (simp only: to_double_finite delta_0_0005)
  note upper_bound_tick = live_tick_delta_classification
      [OF waiting_session_facts(1) waiting_session_facts(3,4,5) upper_bound_fetched live_payload_facts(4)
        scaled_0_0005 upper_bound_pct refl,
        where previous_pct = "0" and delta = "3602879701896397 / 2 ^ 56",
        unfolded double_0_05 run_one_tick [symmetric]]
  have upper_bound: "liveWinprobValue (page (run plain_runtime CONFIG
              [Tick timer_options, Settle 0 (Inr (live_payload ''dynamic_win_probability'' 0.0005))]
              (idle_session (Finite 0)))) =
         Some \<lparr>live_text = Percent (3602879701896397 / 2 ^ 56), has_delta = True,
               data_delta = Some (Bullet, 3602879701896397 / 2 ^ 56), data_delta_dir = Some ''flat''\<rparr>"
    and upper_bound_stored: "lastLiveWinprobPct (page (run plain_runtime CONFIG
              [Tick timer_options, Settle 0 (Inr (live_payload ''dynamic_win_probability'' 0.0005))]
              (idle_session (Finite 0)))) = Finite (3602879701896397 / 2 ^ 56)"
    using upper_bound_tick upper_bound_delta waiting_session_facts(6) [of "Finite 0"] by simp_all
  have lower_bound_fetched: "fetchLiveWinProbability_outcome plain_runtime CONFIG
      (in_flight (waiting_session (Finite (3602879701896397 / 2 ^ 56))) ! 0) (Inr (live_payload ''dynamic_win_probability'' 0))
      (page (waiting_session (Finite (3602879701896397 / 2 ^ 56)))) = Inr (live_payload ''dynamic_win_probability'' 0)"
    by (simp only: waiting_session_facts(2) live_payload_outcome)
  have lower_bound_clamped: "max 0 (min 1 (0 :: real)) = 0"
    by simp
  have lower_bound_pct: "(0 :: real) = round_double (max 0 (min 1 (0)) * 100)"
    by (simp only: lower_bound_clamped product_0)
  have "\<bar>0 - 3602879701896397 / 2 ^ 56\<bar> \<le> (100 :: real)"
    by simp
  then have lower_bound_delta: "to_double (0 - 3602879701896397 / 2 ^ 56) = Finite (- (3602879701896397 / 2 ^ 56))"
    by (simp only: to_double_finite delta_0)
  note lower_bound_tick = live_tick_delta_classification
      [OF waiting_session_facts(1) waiting_session_facts(3,4,5) lower_bound_fetched live_payload_facts(4)
        scaled_0 lower_bound_pct refl,
        where previous_pct = "3602879701896397 / 2 ^ 56" and delta = "- (3602879701896397 / 2 ^ 56)",
        unfolded double_0_05 run_one_tick [symmetric]]
  have lower_bound: "liveWinprobValue (page (run plain_runtime CONFIG
              [Tick timer_options, Settle 0 (Inr (live_payload ''dynamic_win_probability'' 0))]
              (idle_session (Finite (3602879701896397 / 2 ^ 56))))) =
         Some \<lparr>live_text = Percent (0), has_delta = True,
               data_delta = Some (Bullet, 3602879701896397 / 2 ^ 56), data_delta_dir = Some ''flat''\<rparr>"
    and lower_bound_stored: "lastLiveWinprobPct (page (run plain_runtime CONFIG
              [Tick timer_options, Settle 0 (Inr (live_payload ''dynamic_win_probability'' 0))]
              (idle_session (Finite (3602879701896397 / 2 ^ 56))))) = Finite (0)"
    using lower_bound_tick lower_bound_delta waiting_session_facts(6) [of "Finite (3602879701896397 / 2 ^ 56)"] by simp_all
  have first_fetched: "fetchLiveWinProbability_outcome plain_runtime CONFIG
      (in_flight (waiting_session (NaN)) ! 0) (Inr (live_payload ''dynamic_win_probability_pct'' 16.05))
      (page (waiting_session (NaN))) = Inr (live_payload ''dynamic_win_probability_pct'' 16.05)"
    by (simp only: waiting_session_facts(2) live_payload_outcome)
  have first_clamped: "max 0 (min 1 (5782621921543717 / 2 ^ 55 :: real)) = 5782621921543717 / 2 ^ 55"
    by simp
  have first_pct: "(4517673376206029 / 2 ^ 48 :: real) = round_double (max 0 (min 1 (5782621921543717 / 2 ^ 55)) * 100)"
    by (simp only: first_clamped product_16_05)
  note first_tick = live_tick_delta_classification
      [OF waiting_session_facts(1) waiting_session_facts(3,4,5) first_fetched live_payload_facts(5)
        scaled_16_05 first_pct refl,
        unfolded double_0_05 run_one_tick [symmetric]]
  have first: "liveWinprobValue (page (run plain_runtime CONFIG
              [Tick timer_options, Settle 0 (Inr (live_payload ''dynamic_win_probability_pct'' 16.05))]
              (idle_session (NaN)))) =
         Some \<lparr>live_text = Percent (4517673376206029 / 2 ^ 48), has_delta = False, data_delta = None,
               data_delta_dir = None\<rparr>"
    using first_tick waiting_session_facts(6) [of "NaN"] by simp
  from up up_stored flat down upper_bound lower_bound first show ?thesis
    by (intro conjI)
qed

subsection \<open>No active match on a tick\<close>

text \<open>
  Two ticks of the timer on the idle page, the first one answered by a payload flagged
  \<^verbatim>\<open>no_active_match\<close>.
\<close>

lemma no_active_match_settled:
  "step plain_runtime CONFIG
     (Settle 0 (Inr (JObj [(''ok'', JBool True), (''no_active_match'', JBool True)])))
     (waiting_session previous) =
   \<lparr>page = mounted_widget\<lparr>liveWinprobMeta := Some ''Aucune partie en cours''\<rparr>, in_flight = []\<rparr>"
  by (simp add: waiting_session_def mounted_widget_def refreshLiveWinProbability_resume_def
      fetchLiveWinProbability_settle_def renderLiveWinProbability_def clearLiveWinprobDelta_def
      set_live_text_def timer_options_def CONFIG_def plain_runtime_def or_val_def
      String_or_empty_def trim_def Let_def)

lemma tick_after_no_active_match:
  "step plain_runtime CONFIG (Tick timer_options)
     \<lparr>page = mounted_widget\<lparr>liveWinprobMeta := Some ''Aucune partie en cours''\<rparr>, in_flight = []\<rparr> =
   \<lparr>page = mounted_widget\<lparr>liveWinprobMeta := Some ''Aucune partie en cours'',
                           isLiveWinprobRefreshing := True\<rparr>,
    in_flight = [\<lparr>options = timer_options, awaited = Inr live_request\<rparr>]\<rparr>"
  by (simp add: refreshLiveWinProbability_enter_def shouldShowWinprob_def shouldShowLiveWinprob_def
      CONFIG_def mounted_widget_def timer_options_def
      live_request_def fetchLiveWinProbability_request_def plain_runtime_def
      getEffectiveMatchId_def or_else_def ensureTrailingSlash_def trim_def is_ws_def
      asFiniteNumber_def Let_def suffix_to_prefix)

lemma run_two_ticks:
  "run plain_runtime CONFIG
     [Tick timer_options,
      Settle 0 (Inr (JObj [(''ok'', JBool True), (''no_active_match'', JBool True)])),
      Tick timer_options, Settle 0 outcome] (idle_session previous) =
   step plain_runtime CONFIG (Settle 0 outcome)
     \<lparr>page = mounted_widget\<lparr>liveWinprobMeta := Some ''Aucune partie en cours'',
                           isLiveWinprobRefreshing := True\<rparr>,
      in_flight = [\<lparr>options = timer_options, awaited = Inr live_request\<rparr>]\<rparr>"
  by (simp only: run_def fold_simps tick_on_idle_session no_active_match_settled
      tick_after_no_active_match)

text \<open>
  Claim C7. Let a tick of the live refresh settle in a session whose live badge has its
  three elements, and let it report no active match: \<^verbatim>\<open>fetchLiveWinProbability\<close> returns
  to it a payload flagged \<^verbatim>\<open>no_active_match\<close>, or throws an error that
  \<^verbatim>\<open>isNoActiveMatchError\<close> recognises. Then the tick leaves the grey badge with \<^verbatim>\<open>--%\<close>,
  no delta and the text \<^verbatim>\<open>Aucune partie en cours\<close>, and the retained sample is NaN.
  In every session whose live badge and retained sample are as that tick left them (the
  next tick starts in such a session, \<open>enter_live_view\<close>), a tick whose payload carries a
  finite probability shows it without a delta.
\<close>

theorem no_active_match_tick_clears_previous_sample:
  assumes "i < length (in_flight s)"
    and "liveWinprobBadge (page s) \<noteq> None" and "liveWinprobValue (page s) \<noteq> None"
    and "liveWinprobMeta (page s) \<noteq> None"
    and "reports_no_active_match rt
           (fetchLiveWinProbability_outcome rt cfg (in_flight s ! i) outcome (page s))"
    and "s' = step rt cfg (Settle i outcome) s"
  shows "liveWinprobBadge (page s') = Some ''#888888'' \<and>
         liveWinprobValue (page s') =
           Some \<lparr>live_text = NoValue, has_delta = False, data_delta = None, data_delta_dir = None\<rparr> \<and>
         liveWinprobMeta (page s') = Some ''Aucune partie en cours'' \<and>
         lastLiveWinprobPct (page s') = NaN \<and>
         (j < length (in_flight t) \<and> live_view (page t) = live_view (page s') \<and>
          fetchLiveWinProbability_outcome rt cfg (in_flight t ! j) next_outcome (page t) =
            Inr next_payload \<and>
          get_prop next_payload ''no_active_match'' \<noteq> JBool True \<and>
          scale_probability_double (firstFiniteNumber rt (live_winprob_fields next_payload)) =
            Finite probability \<longrightarrow>
          liveWinprobValue (page (step rt cfg (Settle j next_outcome) t)) =
            Some \<lparr>live_text = Percent (round_double (max 0 (min 1 probability) * 100)),
                  has_delta = False, data_delta = None, data_delta_dir = None\<rparr>)"
proof -
  note view = tick_no_active_match_view [OF assms(1-5), folded assms(6)]
  have next_tick: "liveWinprobValue (page (step rt cfg (Settle j next_outcome) t)) =
            Some \<lparr>live_text = Percent (round_double (max 0 (min 1 probability) * 100)),
                  has_delta = False, data_delta = None, data_delta_dir = None\<rparr>"
    if "j < length (in_flight t)" and "live_view (page t) = live_view (page s')"
      and "fetchLiveWinProbability_outcome rt cfg (in_flight t ! j) next_outcome (page t) =
            Inr next_payload"
      and "get_prop next_payload ''no_active_match'' \<noteq> JBool True"
      and "scale_probability_double (firstFiniteNumber rt (live_winprob_fields next_payload)) =
            Finite probability"
  proof -
    from that(2) view have t: "liveWinprobBadge (page t) \<noteq> None" "liveWinprobValue (page t) \<noteq> None"
      "liveWinprobMeta (page t) \<noteq> None" "lastLiveWinprobPct (page t) = NaN"
      by (simp_all add: live_view_def)
    from tick_sample_view [OF that(1) t(1-3) that(3-5) refl] t(4) show ?thesis
      by (simp add: live_view_def)
  qed
  from view next_tick show ?thesis
    by (simp add: live_view_def)
qed

text \<open>
  After the sample 50, a tick answered by the flagged payload, then a tick answered by
  the probability 0.5: 50 % is shown again, and without a delta. And after the sample
  50, a tick whose request fails with one of the phrases.
\<close>

theorem no_active_match_tick_clears_previous_sample_witness:
  "liveWinprobBadge (page (run plain_runtime CONFIG
      [Tick timer_options,
       Settle 0 (Inr (JObj [(''ok'', JBool True), (''no_active_match'', JBool True)]))]
      (idle_session (Finite 50)))) = Some ''#888888'' \<and>
   liveWinprobValue (page (run plain_runtime CONFIG
      [Tick timer_options,
       Settle 0 (Inr (JObj [(''ok'', JBool True), (''no_active_match'', JBool True)]))]
      (idle_session (Finite 50)))) =
     Some \<lparr>live_text = NoValue, has_delta = False, data_delta = None, data_delta_dir = None\<rparr> \<and>
   liveWinprobMeta (page (run plain_runtime CONFIG
      [Tick timer_options,
       Settle 0 (Inr (JObj [(''ok'', JBool True), (''no_active_match'', JBool True)]))]
      (idle_session (Finite 50)))) = Some ''Aucune partie en cours'' \<and>
   lastLiveWinprobPct (page (run plain_runtime CONFIG
      [Tick timer_options,
       Settle 0 (Inr (JObj [(''ok'', JBool True), (''no_active_match'', JBool True)]))]
      (idle_session (Finite 50)))) = NaN \<and>
   liveWinprobValue (page (run plain_runtime CONFIG
      [Tick timer_options,
       Settle 0 (Inr (JObj [(''ok'', JBool True), (''no_active_match'', JBool True)])),
       Tick timer_options,
       Settle 0 (Inr (live_payload ''dynamic_win_probability'' 0.5))]
      (idle_session (Finite 50)))) =
     Some \<lparr>live_text = Percent 50, has_delta = False, data_delta = None, data_delta_dir = None\<rparr> \<and>
   liveWinprobMeta (page (run plain_runtime CONFIG
      [Tick timer_options, Settle 0 (Inl (Error ''No ongoing match''))]
      (idle_session (Finite 50)))) = Some ''Aucune partie en cours'' \<and>
   lastLiveWinprobPct (page (run plain_runtime CONFIG
      [Tick timer_options, Settle 0 (Inl (Error ''No ongoing match''))]
      (idle_session (Finite 50)))) = NaN"
proof -
  let ?flagged = "JObj [(''ok'', JBool True), (''no_active_match'', JBool True)]"
  let ?sample = "live_payload ''dynamic_win_probability'' 0.5"
  let ?t = "\<lparr>page = mounted_widget\<lparr>liveWinprobMeta := Some ''Aucune partie en cours'',
                                   isLiveWinprobRefreshing := True\<rparr>,
              in_flight = [\<lparr>options = timer_options, awaited = Inr live_request\<rparr>]\<rparr>"
  have flagged: "reports_no_active_match plain_runtime
      (fetchLiveWinProbability_outcome plain_runtime CONFIG
         (in_flight (waiting_session (Finite 50)) ! 0) (Inr ?flagged)
         (page (waiting_session (Finite 50))))"
    by (rule flagged_payload_outcome) (simp_all add: waiting_session_def)
  have next_call: "0 < length (in_flight ?t)"
    by simp
  have next_view: "live_view (page ?t) =
      live_view (page (step plain_runtime CONFIG (Settle 0 (Inr ?flagged))
                         (waiting_session (Finite 50))))"
    by (simp only: no_active_match_settled) (simp add: live_view_def)
  have next_fetched: "fetchLiveWinProbability_outcome plain_runtime CONFIG (in_flight ?t ! 0)
      (Inr ?sample) (page ?t) = Inr ?sample"
    by (simp add: live_payload_outcome)
  have pct: "round_double (max 0 (min 1 (1 / 2)) * 100) = 50"
    using product_0_5 by simp
  note tick = no_active_match_tick_clears_previous_sample
      [OF waiting_session_facts(1) waiting_session_facts(3,4,5) flagged refl,
        where t = ?t and j = 0 and next_outcome = "Inr ?sample" and next_payload = ?sample
          and probability = "1 / 2",
        unfolded run_one_tick [symmetric] run_two_ticks [symmetric]]
  from tick next_call next_view next_fetched live_payload_facts(4) [of "0.5"]
    scaled_0_5 [of plain_runtime] pct
  have returned: "liveWinprobBadge (page (run plain_runtime CONFIG
        [Tick timer_options, Settle 0 (Inr ?flagged)] (idle_session (Finite 50)))) =
        Some ''#888888''"
    "liveWinprobValue (page (run plain_runtime CONFIG
        [Tick timer_options, Settle 0 (Inr ?flagged)] (idle_session (Finite 50)))) =
        Some \<lparr>live_text = NoValue, has_delta = False, data_delta = None, data_delta_dir = None\<rparr>"
    "liveWinprobMeta (page (run plain_runtime CONFIG
        [Tick timer_options, Settle 0 (Inr ?flagged)] (idle_session (Finite 50)))) =
        Some ''Aucune partie en cours''"
    "lastLiveWinprobPct (page (run plain_runtime CONFIG
        [Tick timer_options, Settle 0 (Inr ?flagged)] (idle_session (Finite 50)))) = NaN"
    "liveWinprobValue (page (run plain_runtime CONFIG
        [Tick timer_options, Settle 0 (Inr ?flagged), Tick timer_options, Settle 0 (Inr ?sample)]
        (idle_session (Finite 50)))) =
        Some \<lparr>live_text = Percent 50, has_delta = False, data_delta = None, data_delta_dir = None\<rparr>"
    by (simp_all add: run_one_tick run_two_ticks)
  have "isNoActiveMatchError plain_runtime (Error ''No ongoing match'')"
    by (simp add: isNoActiveMatchError_iff mentions_eval text_eval)
  then have thrown: "reports_no_active_match plain_runtime
      (fetchLiveWinProbability_outcome plain_runtime CONFIG
         (in_flight (waiting_session (Finite 50)) ! 0) (Inl (Error ''No ongoing match''))
         (page (waiting_session (Finite 50))))"
    by (intro thrown_phrase_outcome) (simp_all add: waiting_session_def)
  note failed_tick = no_active_match_tick_clears_previous_sample
      [OF waiting_session_facts(1) waiting_session_facts(3,4,5) thrown refl,
        unfolded run_one_tick [symmetric]]
  then have failed: "liveWinprobMeta (page (run plain_runtime CONFIG
        [Tick timer_options, Settle 0 (Inl (Error ''No ongoing match''))]
        (idle_session (Finite 50)))) = Some ''Aucune partie en cours''"
    "lastLiveWinprobPct (page (run plain_runtime CONFIG
        [Tick timer_options, Settle 0 (Inl (Error ''No ongoing match''))]
        (idle_session (Finite 50)))) = NaN"
    by simp_all
  from returned failed show ?thesis
    by (intro conjI)
qed

section \<open>Properties of the logistic combiner\<close>

lemma logistic_bounds: "0 < logistic k d" "logistic k d < 1"
  by (simp_all add: logistic_def add_pos_pos)

text \<open>
  Claim C4. For every pair of team averages and every steepness, the probability
  reported for team A is the logistic of the difference of the averages, clamped to
  \<open>[0.05, 0.95]\<close>, so it is never below 0.05 nor above 0.95.
\<close>

theorem win_probability_clamped:
  "win_probability k team_average_a team_average_b =
     clamp (1 / (1 + exp (- k * (team_average_a - team_average_b)))) 0.05 0.95 \<and>
   0.05 \<le> win_probability k team_average_a team_average_b \<and>
   win_probability k team_average_a team_average_b \<le> 0.95"
  by (simp add: win_probability_def clamp_def logistic_def)


lemma win_probability_even: "win_probability k a a = 0.5"
  by (simp add: win_probability_def clamp_def logistic_def)



end
